theory Spec2Isabelle
  imports Complex_Main
begin

section \<open>Strings and character classes\<close>

text \<open>
  A Python \<open>str\<close> is modelled as a HOL \<open>string\<close>; a \<open>char\<close> stands for a code point
  below 256. On that range the classes of Python's \<open>re\<close> module (Unicode mode) are the
  following: \<open>\d\<close> is the ten ASCII digits, \<open>\s\<close> is what \<open>str.isspace\<close> accepts, and
  \<open>\w\<close> is what \<open>str.isalnum\<close> accepts together with the underscore.
\<close>

definition is_digit :: "char \<Rightarrow> bool" where
  "is_digit c = (c \<in> set ''0123456789'')"

definition is_space :: "char \<Rightarrow> bool" where
  "is_space c = (c \<in> set [CHR 0x09, CHR 0x0A, CHR 0x0B, CHR 0x0C, CHR 0x0D,
                           CHR 0x1C, CHR 0x1D, CHR 0x1E, CHR 0x1F, CHR 0x20,
                           CHR 0x85, CHR 0xA0])"

definition is_word :: "char \<Rightarrow> bool" where
  "is_word c =
     (c \<in> set ''0123456789ABCDEFGHIJKLMNOPQRSTUVWXYZ_abcdefghijklmnopqrstuvwxyz'' \<or>
      (let n = (of_char c :: nat) in
         n \<in> {170, 178, 179, 181, 185, 186, 188, 189, 190} \<or>
         (192 \<le> n \<and> n \<le> 214) \<or> (216 \<le> n \<and> n \<le> 246) \<or> 248 \<le> n))"

text \<open>ASCII lower-casing, which is what \<open>re.IGNORECASE\<close> amounts to for the ASCII
  letters of the patterns below, on code points under 256.\<close>

definition lower_char :: "char \<Rightarrow> char" where
  "lower_char c =
     (case map_of (zip ''ABCDEFGHIJKLMNOPQRSTUVWXYZ'' ''abcdefghijklmnopqrstuvwxyz'') c of
        Some l \<Rightarrow> l
      | None \<Rightarrow> c)"

text \<open>\<open>str.strip()\<close>: whitespace removed at both ends.\<close>

definition lstrip :: "string \<Rightarrow> string" where
  "lstrip s = dropWhile is_space s"

definition strip :: "string \<Rightarrow> string" where
  "strip s = rev (dropWhile is_space (rev (dropWhile is_space s)))"

section \<open>Regular expressions of the \<open>re\<close> module\<close>

text \<open>
  The patterns of the program use literals, the classes \<open>\d\<close>, \<open>\s\<close>, \<open>\w\<close> and \<open>.\<close>,
  greedy repetition of a single class, sequencing, alternation, optional and capturing
  groups, the anchors \<open>^\<close> and \<open>\b\<close>, and look-ahead. The matcher is the backtracking
  one: alternatives are tried left to right, repetition takes as much as it can and gives
  back one character at a time.
\<close>

datatype cclass = Digit | Space | Word | Dot | Lit char | LitI char

fun cls_ok :: "cclass \<Rightarrow> char \<Rightarrow> bool" where
  "cls_ok Digit c = is_digit c"
| "cls_ok Space c = is_space c"
| "cls_ok Word c = is_word c"
| "cls_ok Dot c = (c \<noteq> CHR 0x0A)"
| "cls_ok (Lit x) c = (c = x)"
| "cls_ok (LitI x) c = (lower_char c = lower_char x)"

datatype regex =
    Eps
  | Cls cclass
  | Rep cclass nat
  | Seq regex regex
  | Alt regex regex
  | Opt regex
  | Grp nat regex
  | Bol
  | WordB
  | Ahead regex

text \<open>A matcher state: the character before the current position (\<open>None\<close> at the start
  of the string), the rest of the subject, and the groups captured so far (latest first).\<close>

type_synonym mstate = "char option \<times> string \<times> (nat \<times> string) list"

text \<open>\<open>many p n k\<close>: greedy repetition of the class \<open>p\<close>, at least \<open>n\<close> times, then \<open>k\<close>.\<close>

fun many :: "(char \<Rightarrow> bool) \<Rightarrow> nat \<Rightarrow> (mstate \<Rightarrow> mstate option) \<Rightarrow>
             char option \<Rightarrow> string \<Rightarrow> (nat \<times> string) list \<Rightarrow> mstate option" where
  "many p n k prev [] caps = (if n = 0 then k (prev, [], caps) else None)"
| "many p n k prev (c # cs) caps =
     (if p c then
        (case many p (n - 1) k (Some c) cs caps of
           Some r \<Rightarrow> Some r
         | None \<Rightarrow> if n = 0 then k (prev, c # cs, caps) else None)
      else if n = 0 then k (prev, c # cs, caps) else None)"

definition at_boundary :: "char option \<Rightarrow> string \<Rightarrow> bool" where
  "at_boundary prev rest =
     ((case prev of None \<Rightarrow> False | Some c \<Rightarrow> is_word c) \<noteq>
      (case rest of [] \<Rightarrow> False | c # _ \<Rightarrow> is_word c))"

fun rmatch :: "regex \<Rightarrow> (mstate \<Rightarrow> mstate option) \<Rightarrow> mstate \<Rightarrow> mstate option" where
  "rmatch Eps k st = k st"
| "rmatch (Cls c) k (prev, rest, caps) =
     (case rest of [] \<Rightarrow> None
      | x # xs \<Rightarrow> if cls_ok c x then k (Some x, xs, caps) else None)"
| "rmatch (Rep c n) k (prev, rest, caps) = many (cls_ok c) n k prev rest caps"
| "rmatch (Seq a b) k st = rmatch a (\<lambda>st'. rmatch b k st') st"
| "rmatch (Alt a b) k st =
     (case rmatch a k st of Some r \<Rightarrow> Some r | None \<Rightarrow> rmatch b k st)"
| "rmatch (Opt a) k st =
     (case rmatch a k st of Some r \<Rightarrow> Some r | None \<Rightarrow> k st)"
| "rmatch (Grp i a) k (prev, rest, caps) =
     rmatch a (\<lambda>(p', r', c'). k (p', r', (i, take (length rest - length r') rest) # c'))
       (prev, rest, caps)"
| "rmatch Bol k (prev, rest, caps) =
     (if prev = None then k (prev, rest, caps) else None)"
| "rmatch WordB k (prev, rest, caps) =
     (if at_boundary prev rest then k (prev, rest, caps) else None)"
| "rmatch (Ahead a) k st =
     (case rmatch a Some st of Some _ \<Rightarrow> k st | None \<Rightarrow> None)"

text \<open>The last continuation of a match. The \<open>re\<close> engine's \<open>must_advance\<close> flag refuses an
  empty match at the position where the search starts.\<close>

definition accept :: "bool \<Rightarrow> nat \<Rightarrow> mstate \<Rightarrow> mstate option" where
  "accept adv len st =
     (case st of (p, r, c) \<Rightarrow> if adv \<and> length r = len then None else Some st)"

definition match_here :: "regex \<Rightarrow> bool \<Rightarrow> char option \<Rightarrow> string \<Rightarrow> mstate option" where
  "match_here r adv prev rest = rmatch r (accept adv (length rest)) (prev, rest, [])"

text \<open>\<open>re.match\<close> tries the start of the string only; \<open>re.search\<close> tries every
  position from left to right.\<close>

definition re_match :: "regex \<Rightarrow> string \<Rightarrow> mstate option" where
  "re_match r s = match_here r False None s"

fun search_from :: "regex \<Rightarrow> char option \<Rightarrow> string \<Rightarrow> mstate option" where
  "search_from r prev [] = match_here r False prev []"
| "search_from r prev (c # cs) =
     (case match_here r False prev (c # cs) of
        Some m \<Rightarrow> Some m
      | None \<Rightarrow> search_from r (Some c) cs)"

definition re_search :: "regex \<Rightarrow> string \<Rightarrow> bool" where
  "re_search r s = (search_from r None s \<noteq> None)"

definition group :: "mstate \<Rightarrow> nat \<Rightarrow> string option" where
  "group m i = map_of (snd (snd m)) i"

text \<open>
  \<open>re.sub(pattern, f, s)\<close> and \<open>re.split(pattern, s)\<close> (Python 3.7 and later) walk the
  subject from left to right. Each round searches from the current position; after an
  empty match the next search may not match empty at the same position. \<open>sub_loop\<close>
  copies what lies between matches and replaces every match by \<open>f\<close> of the matched text;
  \<open>split_loop\<close> closes the current piece at every match. The patterns that the program
  splits on have no capturing group, so a match adds nothing to the pieces.
\<close>

function sub_loop :: "regex \<Rightarrow> (string \<Rightarrow> string) \<Rightarrow> bool \<Rightarrow> char option \<Rightarrow> string \<Rightarrow> string"
  where
  "sub_loop r f adv prev rest =
     (case match_here r adv prev rest of
        Some (p', r', caps) \<Rightarrow>
          (if length rest - length r' = 0 then
             (if adv then
                (case rest of [] \<Rightarrow> [] | c # cs \<Rightarrow> c # sub_loop r f False (Some c) cs)
              else f [] @ sub_loop r f True prev rest)
           else f (take (length rest - length r') rest) @
                sub_loop r f False p' (drop (length rest - length r') rest))
      | None \<Rightarrow>
          (case rest of [] \<Rightarrow> [] | c # cs \<Rightarrow> c # sub_loop r f False (Some c) cs))"
  by pat_completeness auto
termination
  by (relation "measure (\<lambda>(r, f, adv, prev, rest). 2 * length rest + (if adv then 0 else 1))")
     auto

definition re_sub :: "regex \<Rightarrow> (string \<Rightarrow> string) \<Rightarrow> string \<Rightarrow> string" where
  "re_sub r f s = sub_loop r f False None s"

function split_loop :: "regex \<Rightarrow> bool \<Rightarrow> char option \<Rightarrow> string \<Rightarrow> string \<Rightarrow> string list" where
  "split_loop r adv prev rest piece =
     (case match_here r adv prev rest of
        Some (p', r', caps) \<Rightarrow>
          (if length rest - length r' = 0 then
             (if adv then
                (case rest of [] \<Rightarrow> [piece]
                 | c # cs \<Rightarrow> split_loop r False (Some c) cs (piece @ [c]))
              else piece # split_loop r True prev rest [])
           else piece # split_loop r False p' (drop (length rest - length r') rest) [])
      | None \<Rightarrow>
          (case rest of [] \<Rightarrow> [piece]
           | c # cs \<Rightarrow> split_loop r False (Some c) cs (piece @ [c])))"
  by pat_completeness auto
termination
  by (relation "measure (\<lambda>(r, adv, prev, rest, piece). 2 * length rest + (if adv then 0 else 1))")
     auto

definition re_split :: "regex \<Rightarrow> string \<Rightarrow> string list" where
  "re_split r s = split_loop r False None s []"

text \<open>A literal word, letter by letter; \<open>word_i\<close> under \<open>re.IGNORECASE\<close>.\<close>

fun word :: "string \<Rightarrow> regex" where
  "word [] = Eps"
| "word (c # cs) = Seq (Cls (Lit c)) (word cs)"

fun word_i :: "string \<Rightarrow> regex" where
  "word_i [] = Eps"
| "word_i (c # cs) = Seq (Cls (LitI c)) (word_i cs)"

fun alts :: "regex list \<Rightarrow> regex" where
  "alts [] = Eps"
| "alts [r] = r"
| "alts (r # rs) = Alt r (alts rs)"

section \<open>The text normaliser: instruction splitting\<close>

text \<open>\<open>\d+\.\s+\<close>, the marker of a numbered step.\<close>

definition step_marker :: regex where
  "step_marker = Seq (Rep Digit 1) (Seq (Cls (Lit CHR ''.'')) (Rep Space 1))"

text \<open>\<open>\d+\.\s+.+\d+\.\s+\<close>: two markers with something between them.\<close>

definition embedded_steps :: regex where
  "embedded_steps = Seq step_marker (Seq (Rep Dot 1) step_marker)"

text \<open>\<open>^\d+\.\s*\<close>, the leading number of a step.\<close>

definition leading_number :: regex where
  "leading_number =
     Seq Bol (Seq (Rep Digit 1) (Seq (Cls (Lit CHR ''.'')) (Rep Space 0)))"

definition strip_number :: "string \<Rightarrow> string" where
  "strip_number s = strip (re_sub leading_number (\<lambda>_. []) s)"

text \<open>The body of the loop of \<open>split_embedded_steps\<close>: the steps that one line adds to
  \<open>cleaned_steps\<close>.\<close>

definition steps_of_line :: "string \<Rightarrow> string list" where
  "steps_of_line step =
     (if re_search embedded_steps step then
        filter (\<lambda>s. s \<noteq> [])
          (map strip_number
             (filter (\<lambda>p. p \<noteq> []) (map strip (re_split (Ahead step_marker) step))))
      else filter (\<lambda>s. s \<noteq> []) [strip_number step])"

definition split_embedded_steps :: "string list \<Rightarrow> string list" where
  "split_embedded_steps instructions =
     (if instructions = [] then instructions
      else let cleaned_steps = concat (map steps_of_line instructions)
           in if cleaned_steps \<noteq> [] then cleaned_steps else instructions)"

section \<open>The text normaliser: decimals to fractions\<close>

subsection \<open>Python numbers\<close>

text \<open>
  A Python \<open>float\<close> is an IEEE-754 binary64 value. The finite ones are the rationals
  \<open>n * 2 ^ q\<close> with \<open>|n| < 2 ^ 53\<close> and \<open>-1074 \<le> q\<close>; \<open>nearest_double\<close> rounds a
  rational to the nearest of them, ties to the even significand, as every float
  operation of the program does with its exact result.
\<close>

datatype pyfloat = Finite rat | Infinite | NaN

fun bit_length :: "nat \<Rightarrow> nat" where
  "bit_length n = (if n = 0 then 0 else Suc (bit_length (n div 2)))"

definition pow2 :: "int \<Rightarrow> rat" where
  "pow2 e = (if 0 \<le> e then 2 ^ nat e else 1 / 2 ^ nat (- e))"

text \<open>The exponent \<open>e\<close> with \<open>2 ^ e \<le> a < 2 ^ (e + 1)\<close>, for \<open>a > 0\<close>.\<close>

definition binary_exponent :: "rat \<Rightarrow> int" where
  "binary_exponent a =
     (if 1 \<le> a then int (bit_length (nat \<lfloor>a\<rfloor>)) - 1
      else - int (bit_length (nat (\<lceil>1 / a\<rceil> - 1))))"

definition round_half_even :: "rat \<Rightarrow> int" where
  "round_half_even m =
     (let f = \<lfloor>m\<rfloor>; r = m - of_int f
      in if r < 1 / 2 then f else if 1 / 2 < r then f + 1
         else if even f then f else f + 1)"

definition nearest_double :: "rat \<Rightarrow> rat" where
  "nearest_double x =
     (if x = 0 then 0
      else let a = \<bar>x\<bar>; q = max (binary_exponent a) (- 1022) - 52
           in sgn x * of_int (round_half_even (a / pow2 q)) * pow2 q)"

definition to_float :: "rat \<Rightarrow> pyfloat" where
  "to_float x =
     (let y = nearest_double x in if 2 ^ 1024 \<le> \<bar>y\<bar> then Infinite else Finite y)"

text \<open>Float subtraction: the exact difference, rounded. The differences that the program
  takes are far below the overflow threshold.\<close>

definition fsub :: "rat \<Rightarrow> rat \<Rightarrow> rat" where
  "fsub a b = nearest_double (a - b)"

text \<open>\<open>int(num)\<close> truncates towards zero; \<open>str\<close> of an integer is its decimal numeral.\<close>

definition trunc :: "rat \<Rightarrow> int" where
  "trunc x = (if 0 \<le> x then \<lfloor>x\<rfloor> else \<lceil>x\<rceil>)"

definition digit_char :: "nat \<Rightarrow> char" where
  "digit_char n = ''0123456789'' ! n"

fun show_nat :: "nat \<Rightarrow> string" where
  "show_nat n =
     (if n < 10 then [digit_char n]
      else show_nat (n div 10) @ [digit_char (n mod 10)])"

definition show_int :: "int \<Rightarrow> string" where
  "show_int i = (if i < 0 then CHR ''-'' # show_nat (nat (- i)) else show_nat (nat i))"

subsection \<open>\<open>float(str)\<close>\<close>

text \<open>
  \<open>float\<close> accepts, between optional whitespace, an optional sign followed by
  \<open>inf\<close>, \<open>infinity\<close>, \<open>nan\<close> (in any case) or a decimal number: digits with single
  underscores allowed between them, an optional point, an optional exponent. Anything
  else raises \<open>ValueError\<close>, which is \<open>None\<close> here.
\<close>

fun digits_tail :: "string \<Rightarrow> string \<times> string" where
  "digits_tail [] = ([], [])"
| "digits_tail [c] = (if is_digit c then ([c], []) else ([], [c]))"
| "digits_tail (c # d # cs) =
     (if is_digit c then (case digits_tail (d # cs) of (ds, r) \<Rightarrow> (c # ds, r))
      else if c = CHR ''_'' \<and> is_digit d then
        (case digits_tail cs of (ds, r) \<Rightarrow> (d # ds, r))
      else ([], c # d # cs))"

definition digitpart :: "string \<Rightarrow> (string \<times> string) option" where
  "digitpart s =
     (case s of [] \<Rightarrow> None
      | c # cs \<Rightarrow> if is_digit c then
                   (case digits_tail cs of (ds, r) \<Rightarrow> Some (c # ds, r))
                 else None)"

definition digit_val :: "char \<Rightarrow> nat" where
  "digit_val c =
     (case map_of (zip ''0123456789'' [0, 1, 2, 3, 4, 5, 6, 7, 8, 9]) c of
        Some v \<Rightarrow> v
      | None \<Rightarrow> 0)"

definition nat_of_digits :: "string \<Rightarrow> nat" where
  "nat_of_digits ds = foldl (\<lambda>a c. 10 * a + digit_val c) 0 ds"

definition pow10 :: "int \<Rightarrow> rat" where
  "pow10 e = (if 0 \<le> e then 10 ^ nat e else 1 / 10 ^ nat (- e))"

text \<open>The mantissa digits: \<open>[digitpart] "." digitpart | digitpart ["."]\<close>, giving the
  integer digits, the fraction digits and what follows.\<close>

definition float_number :: "string \<Rightarrow> (string \<times> string \<times> string) option" where
  "float_number s =
     (case digitpart s of
        Some (ip, r) \<Rightarrow>
          (case r of
             [] \<Rightarrow> Some (ip, [], [])
           | c # r' \<Rightarrow>
               if c = CHR ''.'' then
                 (case digitpart r' of
                    Some (fp, r'') \<Rightarrow> Some (ip, fp, r'')
                  | None \<Rightarrow> Some (ip, [], r'))
               else Some (ip, [], r))
      | None \<Rightarrow>
          (case s of
             [] \<Rightarrow> None
           | c # r' \<Rightarrow>
               if c = CHR ''.'' then
                 (case digitpart r' of
                    Some (fp, r'') \<Rightarrow> Some ([], fp, r'')
                  | None \<Rightarrow> None)
               else None))"

text \<open>The exponent: nothing, or \<open>e\<close>, an optional sign and digits up to the end.\<close>

definition float_exponent :: "string \<Rightarrow> int option" where
  "float_exponent s =
     (case s of
        [] \<Rightarrow> Some 0
      | c # r \<Rightarrow>
          if lower_char c = CHR ''e'' then
            (let neg = (case r of [] \<Rightarrow> False | x # _ \<Rightarrow> x = CHR ''-'');
                 r' = (case r of [] \<Rightarrow> []
                       | x # xs \<Rightarrow> if x = CHR ''-'' \<or> x = CHR ''+'' then xs else r)
             in case digitpart r' of
                  Some (ds, []) \<Rightarrow>
                    Some (if neg then - int (nat_of_digits ds) else int (nat_of_digits ds))
                | _ \<Rightarrow> None)
          else None)"

text \<open>What a string denotes as a \<open>float\<close> literal, before rounding.\<close>

datatype literal = Number rat | Infinity | NotANumber

definition float_literal :: "string \<Rightarrow> literal option" where
  "float_literal str =
     (let s = strip str;
          neg = (case s of [] \<Rightarrow> False | c # _ \<Rightarrow> c = CHR ''-'');
          body = (case s of [] \<Rightarrow> []
                  | c # cs \<Rightarrow> if c = CHR ''-'' \<or> c = CHR ''+'' then cs else s);
          low = map lower_char body
      in if low = ''inf'' \<or> low = ''infinity'' then Some Infinity
         else if low = ''nan'' then Some NotANumber
         else
           (case float_number body of
              None \<Rightarrow> None
            | Some (ip, fp, r) \<Rightarrow>
                (case float_exponent r of
                   None \<Rightarrow> None
                 | Some e \<Rightarrow>
                     let v = of_nat (nat_of_digits (ip @ fp)) * pow10 (e - int (length fp))
                     in Some (Number (if neg then - v else v)))))"

definition py_float :: "string \<Rightarrow> pyfloat option" where
  "py_float str =
     (case float_literal str of
        None \<Rightarrow> None
      | Some Infinity \<Rightarrow> Some Infinite
      | Some NotANumber \<Rightarrow> Some NaN
      | Some (Number v) \<Rightarrow> Some (to_float v))"

subsection \<open>\<open>Fraction.limit_denominator\<close>\<close>

text \<open>The standard library's search through the continued fraction of \<open>n / d\<close> for the
  closest fraction whose denominator is at most \<open>m\<close>. A zero divisor in the loop, which
  would raise, ends it with \<open>None\<close>.\<close>

function ld_loop :: "int \<Rightarrow> int \<Rightarrow> int \<Rightarrow> int \<Rightarrow> int \<Rightarrow> int \<Rightarrow> int \<Rightarrow>
                     (int \<times> int \<times> int \<times> int) option" where
  "ld_loop m p0 q0 p1 q1 n d =
     (if d \<le> 0 then None
      else if q0 + (n div d) * q1 > m then Some (p0, q0, p1, q1)
      else ld_loop m p1 q1 (p0 + (n div d) * p1) (q0 + (n div d) * q1) d (n - (n div d) * d))"
  by pat_completeness auto
termination
proof (relation "measure (\<lambda>(m, p0, q0, p1, q1, n, d). nat d)")
  show "wf (measure (\<lambda>(m, p0, q0, p1, q1, n, d). nat d))" by simp
next
  fix m p0 q0 p1 q1 n d :: int
  assume "\<not> d \<le> 0"
  then have "0 < d" by simp
  then have "n - n div d * d = n mod d" by (simp add: minus_div_mult_eq_mod)
  moreover from \<open>0 < d\<close> have "n mod d < d" by simp
  moreover from \<open>0 < d\<close> have "0 \<le> n mod d" by simp
  ultimately show "((m, p1, q1, p0 + n div d * p1, q0 + n div d * q1, d, n - n div d * d),
           (m, p0, q0, p1, q1, n, d)) \<in> measure (\<lambda>(m, p0, q0, p1, q1, n, d). nat d)"
    by simp
qed

definition limit_denominator :: "int \<Rightarrow> rat \<Rightarrow> rat option" where
  "limit_denominator m x =
     (case quotient_of x of (n, d) \<Rightarrow>
        if d \<le> m then Some x
        else
          (case ld_loop m 0 1 1 0 n d of
             None \<Rightarrow> None
           | Some (p0, q0, p1, q1) \<Rightarrow>
               if q1 = 0 then None
               else
                 let k = (m - q0) div q1;
                     bound1 = Fract (p0 + k * p1) (q0 + k * q1);
                     bound2 = Fract p1 q1
                 in if \<bar>bound2 - x\<bar> \<le> \<bar>bound1 - x\<bar> then Some bound2 else Some bound1))"

subsection \<open>\<open>decimal_to_fraction\<close> and \<open>clean_ingredient\<close>\<close>

text \<open>The table of cooking fractions, in the order of the dictionary literal; a key is
  the double that its decimal literal denotes.\<close>

definition common_fractions :: "(rat \<times> string) list" where
  "common_fractions =
     [(nearest_double (125 / 1000), ''1/8''),
      (nearest_double (25 / 100), ''1/4''),
      (nearest_double (333 / 1000), ''1/3''),
      (nearest_double (375 / 1000), ''3/8''),
      (nearest_double (5 / 10), ''1/2''),
      (nearest_double (625 / 1000), ''5/8''),
      (nearest_double (666 / 1000), ''2/3''),
      (nearest_double (667 / 1000), ''2/3''),
      (nearest_double (75 / 100), ''3/4''),
      (nearest_double (875 / 1000), ''7/8'')]"

definition tolerance :: rat where
  "tolerance = nearest_double (2 / 100)"

text \<open>The rendering of the fraction that \<open>limit_denominator\<close> gives.\<close>

definition show_fraction :: "rat \<Rightarrow> string" where
  "show_fraction fr =
     (case quotient_of fr of (n, d) \<Rightarrow>
        if d = 1 then show_int n
        else if n > d then
          (if n mod d = 0 then show_int (n div d)
           else show_int (n div d) @ '' '' @ show_int (n mod d) @ ''/'' @ show_int d)
        else show_int n @ ''/'' @ show_int d)"

text \<open>Every exception inside \<open>decimal_to_fraction\<close> is caught and gives the argument
  back: a string that \<open>float\<close> rejects, \<open>int\<close> of an infinity or of a NaN.\<close>

definition decimal_to_fraction :: "string \<Rightarrow> string" where
  "decimal_to_fraction decimal_str =
     (case py_float decimal_str of
        None \<Rightarrow> decimal_str
      | Some Infinite \<Rightarrow> decimal_str
      | Some NaN \<Rightarrow> decimal_str
      | Some (Finite num) \<Rightarrow>
          if num = of_int (trunc num) then show_int (trunc num)
          else
            let whole_part = trunc num;
                frac_part = fsub num (of_int whole_part)
            in case find (\<lambda>(decimal, fraction). \<bar>fsub frac_part decimal\<bar> < tolerance)
                      common_fractions of
                 Some (decimal, fraction) \<Rightarrow>
                   if whole_part > 0 then show_int whole_part @ '' '' @ fraction
                   else fraction
               | None \<Rightarrow>
                   (case limit_denominator 8 num of
                      None \<Rightarrow> decimal_str
                    | Some fr \<Rightarrow> show_fraction fr))"

text \<open>\<open>(\d*\.\d+)\<close>\<close>

definition decimal_pattern :: regex where
  "decimal_pattern =
     Grp 1 (Seq (Rep Digit 0) (Seq (Cls (Lit CHR ''.'')) (Rep Digit 1)))"

text \<open>Group 1 is the whole match, so the replacement is \<open>decimal_to_fraction\<close> of the
  matched text.\<close>

definition clean_ingredient :: "string \<Rightarrow> string" where
  "clean_ingredient ingredient = re_sub decimal_pattern decimal_to_fraction ingredient"

definition clean_ingredients :: "string list \<Rightarrow> string list" where
  "clean_ingredients ingredients = map clean_ingredient ingredients"

section \<open>Python values and the recipe record\<close>

text \<open>
  What \<open>json.loads\<close> returns: \<open>None\<close>, booleans, numbers, strings, lists, and
  dictionaries with string keys (an association list with distinct keys, in insertion
  order). The same type carries the fields of a recipe whose type depends on the page.
\<close>

datatype pyval =
    PNone
  | PBool bool
  | PNum rat
  | PStr string
  | PList "pyval list"
  | PDict "(string \<times> pyval) list"

fun truthy :: "pyval \<Rightarrow> bool" where
  "truthy PNone = False"
| "truthy (PBool b) = b"
| "truthy (PNum x) = (x \<noteq> 0)"
| "truthy (PStr s) = (s \<noteq> [])"
| "truthy (PList xs) = (xs \<noteq> [])"
| "truthy (PDict kvs) = (kvs \<noteq> [])"

text \<open>\<open>d.get(key, default)\<close>\<close>

definition dget :: "(string \<times> pyval) list \<Rightarrow> string \<Rightarrow> pyval \<Rightarrow> pyval" where
  "dget d key dflt = (case map_of d key of Some v \<Rightarrow> v | None \<Rightarrow> dflt)"

datatype exn = JSONDecodeError | KeyError | TypeError | AttributeError

record recipe =
  title :: pyval
  image :: pyval
  prep_time :: "int option"
  cook_time :: "int option"
  total_time :: "int option"
  servings :: pyval
  ingredients :: "string list"
  instructions :: "pyval list"
  source_url :: string
  category :: string

section \<open>The structured-data extractor\<close>

text \<open>\<open>for item in xs: if item.get('@type') == 'Recipe': data = item; break\<close>. An item
  that is not a dictionary has no \<open>get\<close>: \<open>AttributeError\<close>. \<open>Inr None\<close> is the
  \<open>else\<close> branch of the loop.\<close>

fun first_recipe_item :: "pyval list \<Rightarrow> exn + pyval option" where
  "first_recipe_item [] = Inr None"
| "first_recipe_item (PDict d # xs) =
     (if dget d ''@type'' PNone = PStr ''Recipe'' then Inr (Some (PDict d))
      else first_recipe_item xs)"
| "first_recipe_item (x # xs) = Inl AttributeError"

text \<open>Iterating a value: the items of a list, the characters of a string, the keys of a
  dictionary; anything else is not iterable.\<close>

fun py_iter :: "pyval \<Rightarrow> exn + pyval list" where
  "py_iter (PList xs) = Inr xs"
| "py_iter (PStr s) = Inr (map (\<lambda>c. PStr [c]) s)"
| "py_iter (PDict kvs) = Inr (map (\<lambda>kv. PStr (fst kv)) kvs)"
| "py_iter v = Inl TypeError"

text \<open>\<open>'@graph' in s\<close> for a string \<open>s\<close>: substring test.\<close>

fun contains :: "string \<Rightarrow> string \<Rightarrow> bool" where
  "contains sub [] = (sub = [])"
| "contains sub (c # cs) = (take (length sub) (c # cs) = sub \<or> contains sub cs)"

text \<open>The two unwrapping steps. Each gives the value that \<open>data\<close> holds afterwards,
  \<open>None\<close> for \<open>continue\<close>, or the exception raised. In \<open>'@graph' in data\<close> a dictionary
  is asked for the key, a string for the substring, a list for the member; the other
  values raise. Indexing a string or a list with \<open>'@graph'\<close> raises too.\<close>

definition unwrap_array :: "pyval \<Rightarrow> exn + pyval option" where
  "unwrap_array data =
     (case data of PList xs \<Rightarrow> first_recipe_item xs | _ \<Rightarrow> Inr (Some data))"

definition unwrap_graph :: "pyval \<Rightarrow> exn + pyval option" where
  "unwrap_graph data =
     (case data of
        PDict d \<Rightarrow>
          (case map_of d ''@graph'' of
             None \<Rightarrow> Inr (Some data)
           | Some g \<Rightarrow>
               (case py_iter g of Inl e \<Rightarrow> Inl e | Inr xs \<Rightarrow> first_recipe_item xs))
      | PStr s \<Rightarrow> if contains ''@graph'' s then Inl TypeError else Inr (Some data)
      | PList xs \<Rightarrow> if PStr ''@graph'' \<in> set xs then Inl TypeError else Inr (Some data)
      | _ \<Rightarrow> Inl TypeError)"

text \<open>The instructions: a string is one instruction; of a list, the strings and the
  \<open>text\<close> (else \<open>name\<close>) of the dictionaries, when truthy.\<close>

fun instruction_items :: "pyval list \<Rightarrow> pyval list" where
  "instruction_items [] = []"
| "instruction_items (PStr s # xs) = PStr s # instruction_items xs"
| "instruction_items (PDict d # xs) =
     (if truthy (dget d ''text'' (dget d ''name'' (PStr [])))
      then dget d ''text'' (dget d ''name'' (PStr [])) # instruction_items xs
      else instruction_items xs)"
| "instruction_items (x # xs) = instruction_items xs"

definition extract_instructions :: "pyval \<Rightarrow> pyval list" where
  "extract_instructions raw_instructions =
     (case raw_instructions of
        PStr s \<Rightarrow> [PStr s]
      | PList xs \<Rightarrow> instruction_items xs
      | _ \<Rightarrow> [])"

text \<open>\<open>PT(?:(\d+)H)?(?:(\d+)M)?\<close>\<close>

definition duration_pattern :: regex where
  "duration_pattern =
     Seq (word ''PT'')
       (Seq (Opt (Seq (Grp 1 (Rep Digit 1)) (Cls (Lit CHR ''H''))))
            (Opt (Seq (Grp 2 (Rep Digit 1)) (Cls (Lit CHR ''M'')))))"

text \<open>\<open>parse_duration\<close> matches the pattern against \<open>str(duration)\<close>. \<open>str\<close> of a number, a
  boolean, a list or a dictionary never begins with \<open>PT\<close>, so only a string can match.\<close>

definition group_int :: "mstate \<Rightarrow> nat \<Rightarrow> int" where
  "group_int m i = (case group m i of None \<Rightarrow> 0 | Some ds \<Rightarrow> int (nat_of_digits ds))"

definition parse_duration :: "pyval \<Rightarrow> int option" where
  "parse_duration duration =
     (if \<not> truthy duration then None
      else case duration of
        PStr s \<Rightarrow>
          (case re_match duration_pattern s of
             None \<Rightarrow> None
           | Some m \<Rightarrow> Some (group_int m 1 * 60 + group_int m 2))
      | _ \<Rightarrow> None)"

definition extract_image :: "pyval \<Rightarrow> pyval" where
  "extract_image img =
     (let image1 = (case img of
                      PList xs \<Rightarrow> (case xs of [] \<Rightarrow> PNone | x # _ \<Rightarrow> x)
                    | _ \<Rightarrow> img)
      in case image1 of PDict d \<Rightarrow> dget d ''url'' PNone | _ \<Rightarrow> image1)"

text \<open>\<open>clean_ingredients\<close> on a value from the page: it iterates the value and hands each
  item to \<open>re.sub\<close>, which raises \<open>TypeError\<close> on anything but a string.\<close>

fun clean_items :: "pyval list \<Rightarrow> exn + string list" where
  "clean_items [] = Inr []"
| "clean_items (PStr s # xs) =
     (case clean_items xs of Inl e \<Rightarrow> Inl e | Inr ys \<Rightarrow> Inr (clean_ingredient s # ys))"
| "clean_items (x # xs) = Inl TypeError"

definition clean_ingredients_value :: "pyval \<Rightarrow> exn + string list" where
  "clean_ingredients_value v =
     (case py_iter v of Inl e \<Rightarrow> Inl e | Inr xs \<Rightarrow> clean_items xs)"

text \<open>The body of the \<open>try\<close> for one metadata block, after the unwrapping:
  \<open>Inr (Some r)\<close> returns the recipe, \<open>Inr None\<close> goes on with the next block.\<close>

definition recipe_of_data :: "pyval \<Rightarrow> string \<Rightarrow> exn + recipe option" where
  "recipe_of_data data url =
     (case data of
        PDict d \<Rightarrow>
          if dget d ''@type'' PNone \<noteq> PStr ''Recipe'' then Inr None
          else
            let ingredients0 = dget d ''recipeIngredient'' (PList []);
                ingredients1 = (if \<not> truthy ingredients0 then dget d ''ingredients'' (PList [])
                                else ingredients0);
                instructions1 = extract_instructions (dget d ''recipeInstructions'' (PList []))
            in (case clean_ingredients_value ingredients1 of
                  Inl e \<Rightarrow> Inl e
                | Inr cleaned \<Rightarrow>
                    if cleaned \<noteq> [] \<or> instructions1 \<noteq> [] then
                      Inr (Some \<lparr> title = dget d ''name'' (PStr ''Recipe''),
                                  image = extract_image (dget d ''image'' PNone),
                                  prep_time = parse_duration (dget d ''prepTime'' PNone),
                                  cook_time = parse_duration (dget d ''cookTime'' PNone),
                                  total_time = parse_duration (dget d ''totalTime'' PNone),
                                  servings = dget d ''recipeYield'' PNone,
                                  ingredients = cleaned,
                                  instructions = instructions1,
                                  source_url = url,
                                  category = ''Uncategorized'' \<rparr>)
                    else Inr None)
      | _ \<Rightarrow> Inl AttributeError)"

definition schema_block :: "exn + pyval \<Rightarrow> string \<Rightarrow> exn + recipe option" where
  "schema_block loaded url =
     (case loaded of
        Inl e \<Rightarrow> Inl e
      | Inr data0 \<Rightarrow>
          (case unwrap_array data0 of
             Inl e \<Rightarrow> Inl e
           | Inr None \<Rightarrow> Inr None
           | Inr (Some data1) \<Rightarrow>
               (case unwrap_graph data1 of
                  Inl e \<Rightarrow> Inl e
                | Inr None \<Rightarrow> Inr None
                | Inr (Some data2) \<Rightarrow> recipe_of_data data2 url)))"

text \<open>\<open>except (json.JSONDecodeError, KeyError, TypeError): continue\<close>\<close>

definition caught :: "exn \<Rightarrow> bool" where
  "caught e = (e = JSONDecodeError \<or> e = KeyError \<or> e = TypeError)"

text \<open>The loop over the \<open>application/ld+json\<close> scripts of the page. Each script is given
  by what \<open>json.loads(script.string)\<close> does with it: the value loaded, or the exception
  (\<open>JSONDecodeError\<close> for text that is not JSON, \<open>TypeError\<close> for a script without a
  single string). An exception outside the caught ones leaves the function.\<close>

fun schema_scan :: "(exn + pyval) list \<Rightarrow> string \<Rightarrow> exn + recipe option" where
  "schema_scan [] url = Inr None"
| "schema_scan (b # bs) url =
     (case schema_block b url of
        Inr (Some r) \<Rightarrow> Inr (Some r)
      | Inr None \<Rightarrow> schema_scan bs url
      | Inl e \<Rightarrow> if caught e then schema_scan bs url else Inl e)"

section \<open>The parsed page\<close>

text \<open>
  The tree that \<open>BeautifulSoup(html, 'html.parser')\<close> builds: text strings and tags with
  a name, attributes and children. The root stands for the soup object itself.
\<close>

datatype node = Text string | Elem string "(string \<times> string) list" "node list"

text \<open>A node with everything below it, in document order.\<close>

fun subtree :: "node \<Rightarrow> node list" where
  "subtree (Text s) = [Text s]"
| "subtree (Elem name attrs children) =
     Elem name attrs children # concat (map subtree children)"

definition descendants :: "node \<Rightarrow> node list" where
  "descendants n =
     (case n of Text s \<Rightarrow> [] | Elem name attrs children \<Rightarrow> concat (map subtree children))"

definition is_tag :: "string \<Rightarrow> node \<Rightarrow> bool" where
  "is_tag name n = (case n of Text s \<Rightarrow> False | Elem name' attrs children \<Rightarrow> name' = name)"

definition find_all :: "string \<Rightarrow> node \<Rightarrow> node list" where
  "find_all name n = filter (is_tag name) (descendants n)"

definition first_of :: "'a list \<Rightarrow> 'a option" where
  "first_of xs = (case xs of [] \<Rightarrow> None | x # _ \<Rightarrow> Some x)"

definition find_tag :: "string \<Rightarrow> node \<Rightarrow> node option" where
  "find_tag name n = first_of (find_all name n)"

text \<open>\<open>tag.get(key)\<close>\<close>

definition attr :: "node \<Rightarrow> string \<Rightarrow> string option" where
  "attr n key = (case n of Text s \<Rightarrow> None | Elem name attrs children \<Rightarrow> map_of attrs key)"

text \<open>The \<open>class\<close> attribute is a list of tokens separated by whitespace.\<close>

fun ws_tokens :: "string \<Rightarrow> string \<Rightarrow> string list" where
  "ws_tokens cur [] = (if cur = [] then [] else [cur])"
| "ws_tokens cur (c # cs) =
     (if is_space c then (if cur = [] then ws_tokens [] cs else cur # ws_tokens [] cs)
      else ws_tokens (cur @ [c]) cs)"

definition classes :: "node \<Rightarrow> string list" where
  "classes n = (case attr n ''class'' of None \<Rightarrow> [] | Some v \<Rightarrow> ws_tokens [] v)"

text \<open>\<open>find(name, class_=c)\<close> for a string \<open>c\<close>, and for a compiled pattern, which is
  searched in each class token.\<close>

definition find_class :: "string \<Rightarrow> string \<Rightarrow> node \<Rightarrow> node option" where
  "find_class name c n = first_of (filter (\<lambda>e. c \<in> set (classes e)) (find_all name n))"

definition find_class_re :: "string \<Rightarrow> regex \<Rightarrow> node \<Rightarrow> node option" where
  "find_class_re name r n =
     first_of (filter (\<lambda>e. list_ex (re_search r) (classes e)) (find_all name n))"

text \<open>\<open>get_text(strip=True)\<close>: the strings below the tag, each stripped, the empty ones
  dropped, joined without a separator.\<close>

definition strings :: "node \<Rightarrow> string list" where
  "strings n = concat (map (\<lambda>d. case d of Text s \<Rightarrow> [s] | Elem name attrs children \<Rightarrow> [])
                          (descendants n))"

definition get_text :: "node \<Rightarrow> string" where
  "get_text n = concat (filter (\<lambda>s. s \<noteq> []) (map strip (strings n)))"

text \<open>\<open>a or b\<close> on two optional values: the first when it is there (a tag is always
  truthy).\<close>

definition orelse :: "'a option \<Rightarrow> 'a option \<Rightarrow> 'a option" where
  "orelse a b = (case a of Some x \<Rightarrow> Some x | None \<Rightarrow> b)"

text \<open>\<open>img.get('src') or img.get('data-src')\<close>\<close>

definition img_source :: "node \<Rightarrow> pyval" where
  "img_source img =
     (case attr img ''src'' of
        Some s \<Rightarrow> if s \<noteq> [] then PStr s
                  else (case attr img ''data-src'' of None \<Rightarrow> PNone | Some t \<Rightarrow> PStr t)
      | None \<Rightarrow> (case attr img ''data-src'' of None \<Rightarrow> PNone | Some t \<Rightarrow> PStr t))"

text \<open>A page: what \<open>json.loads\<close> does with each \<open>application/ld+json\<close> script, in
  document order, and the tree.\<close>

record page =
  scripts :: "(exn + pyval) list"
  soup :: node

definition extract_schema_recipe :: "page \<Rightarrow> string \<Rightarrow> exn + recipe option" where
  "extract_schema_recipe html url = schema_scan (scripts html) url"

section \<open>The heuristic content extractor\<close>

fun seqs :: "regex list \<Rightarrow> regex" where
  "seqs [] = Eps"
| "seqs [r] = r"
| "seqs (r # rs) = Seq r (seqs rs)"

text \<open>\<open>\d+\s*\<close> followed by a unit.\<close>

definition qty :: "regex \<Rightarrow> regex" where
  "qty u = seqs [Rep Digit 1, Rep Space 0, u]"

text \<open>\<open>\d+\s*g\b|\d+\s*ml\b|\d+\s*tsp|\d+\s*tbsp|\d+\s*cup|gram|ounce|\d+\s*oz\<close>,
  ignoring case.\<close>

definition measurement :: regex where
  "measurement =
     alts [qty (Seq (word_i ''g'') WordB), qty (Seq (word_i ''ml'') WordB),
           qty (word_i ''tsp''), qty (word_i ''tbsp''), qty (word_i ''cup''),
           word_i ''gram'', word_i ''ounce'', qty (word_i ''oz'')]"

text \<open>\<open>^\d+\s*(g|ml|tsp|tbsp|cup)\s+\<close>, ignoring case.\<close>

definition starts_with_measure :: regex where
  "starts_with_measure =
     seqs [Bol, Rep Digit 1, Rep Space 0,
           Grp 1 (alts [word_i ''g'', word_i ''ml'', word_i ''tsp'', word_i ''tbsp'',
                        word_i ''cup'']),
           Rep Space 1]"

text \<open>\<open>^\d+\s+egg\<close>, ignoring case.\<close>

definition starts_with_egg :: regex where
  "starts_with_egg = seqs [Bol, Rep Digit 1, Rep Space 1, word_i ''egg'']"

text \<open>\<open>\d+\s*g\s+\w+.*\d+\s*g\s+\w+\<close>, \<open>(?=\d+\s*g\s+)\<close> and \<open>\d+\s*g\b\<close>.\<close>

definition gram_item :: regex where
  "gram_item = seqs [Rep Digit 1, Rep Space 0, Cls (Lit CHR ''g''), Rep Space 1, Rep Word 1]"

definition two_gram_items :: regex where
  "two_gram_items = seqs [gram_item, Rep Dot 0, gram_item]"

definition before_grams :: regex where
  "before_grams = Ahead (seqs [Rep Digit 1, Rep Space 0, Cls (Lit CHR ''g''), Rep Space 1])"

definition grams :: regex where
  "grams = seqs [Rep Digit 1, Rep Space 0, Cls (Lit CHR ''g''), WordB]"

text \<open>\<open>\b(mix|combine|...)\b\<close>, ignoring case.\<close>

definition verbs :: "string list \<Rightarrow> regex" where
  "verbs ws = seqs [WordB, Grp 1 (alts (map word_i ws)), WordB]"

definition blog_verbs :: "string list" where
  "blog_verbs =
     [''mix'', ''combine'', ''add'', ''stir'', ''fold'', ''knead'', ''roll'', ''bake'',
      ''proof'', ''preheat'', ''shape'', ''cut'', ''cover'', ''refrigerate'', ''let'',
      ''place'', ''brush'', ''repeat'']"

text \<open>The three ways to find ingredients, in the order of the source.\<close>

definition list_ingredients :: "node \<Rightarrow> string list" where
  "list_ingredients content =
     filter (re_search measurement)
       (map get_text (concat (map (find_all ''li'') (find_all ''ul'' content))))"

definition paragraph_ingredients :: "node \<Rightarrow> string list" where
  "paragraph_ingredients content =
     filter (\<lambda>text. (length text < 150 \<and> re_match starts_with_measure text \<noteq> None) \<or>
                    (length text < 100 \<and> re_match starts_with_egg text \<noteq> None))
       (map get_text (find_all ''p'' content))"

definition gram_parts :: "string \<Rightarrow> string list" where
  "gram_parts text =
     (if re_search two_gram_items text then
        filter (\<lambda>part. part \<noteq> [] \<and> re_search grams part)
          (map strip (re_split before_grams text))
      else [])"

definition split_ingredients :: "node \<Rightarrow> string list" where
  "split_ingredients content = concat (map gram_parts (map get_text (find_all ''p'' content)))"

definition blog_ingredients :: "node \<Rightarrow> string list" where
  "blog_ingredients content =
     (let ingredients1 = list_ingredients content;
          ingredients2 = (if ingredients1 = [] then paragraph_ingredients content
                          else ingredients1)
      in if ingredients2 = [] then split_ingredients content else ingredients2)"

definition blog_instructions :: "node \<Rightarrow> string list" where
  "blog_instructions content =
     (let instructions1 =
            filter (\<lambda>text. text \<noteq> [] \<and> length text > 20)
              (map get_text (concat (map (find_all ''li'') (find_all ''ol'' content))))
      in if instructions1 = [] then
           filter (\<lambda>text. length text > 50 \<and> re_search (verbs blog_verbs) text)
             (map get_text (find_all ''p'' content))
         else instructions1)"

definition tag_text_or :: "node option \<Rightarrow> string \<Rightarrow> string" where
  "tag_text_or tag dflt = (case tag of None \<Rightarrow> dflt | Some t \<Rightarrow> get_text t)"

definition extract_weekendbakery_recipe :: "page \<Rightarrow> string \<Rightarrow> recipe option" where
  "extract_weekendbakery_recipe html url =
     (let title_tag = orelse (find_class ''h1'' ''entry-title'' (soup html))
                             (find_tag ''h1'' (soup html));
          content = (case orelse (find_class ''div'' ''entry-content'' (soup html))
                                 (find_tag ''article'' (soup html)) of
                       Some c \<Rightarrow> c | None \<Rightarrow> soup html);
          ingredients1 = blog_ingredients content;
          instructions1 = blog_instructions content
      in if ingredients1 \<noteq> [] \<or> instructions1 \<noteq> [] then
           Some \<lparr> title = PStr (tag_text_or title_tag ''Recipe''),
                  image = (case find_tag ''img'' content of
                             None \<Rightarrow> PNone | Some img \<Rightarrow> img_source img),
                  prep_time = None, cook_time = None, total_time = None,
                  servings = PNone,
                  ingredients = clean_ingredients ingredients1,
                  instructions = map PStr instructions1,
                  source_url = url,
                  category = ''Uncategorized'' \<rparr>
         else None)"

text \<open>The generic tier.\<close>

definition container_class :: regex where
  "container_class = alts [word_i ''content'', word_i ''post'', word_i ''entry'']"

definition generic_units :: "string list" where
  "generic_units =
     [''g'', ''kg'', ''ml'', ''l'', ''oz'', ''lb'', ''cup'', ''cups'', ''tsp'', ''tbsp'',
      ''teaspoon'', ''tablespoon'', ''gram'', ''grams'', ''ounce'', ''ounces'']"

definition ingredient_pattern :: regex where
  "ingredient_pattern =
     seqs [Rep Digit 1, Rep Space 0, Grp 1 (alts (map word_i generic_units)), WordB]"

definition generic_verbs :: "string list" where
  "generic_verbs =
     blog_verbs @ [''cook'', ''heat'', ''simmer'', ''boil'', ''fry'', ''pour'', ''whisk'']"

definition decorative :: regex where
  "decorative = alts [word_i ''logo'', word_i ''icon'', word_i ''avatar'', word_i ''button'']"

text \<open>The first image whose source is truthy and does not look decorative.\<close>

fun first_image :: "node list \<Rightarrow> pyval" where
  "first_image [] = PNone"
| "first_image (img # imgs) =
     (case img_source img of
        PStr src \<Rightarrow> if src \<noteq> [] \<and> \<not> re_search decorative src then PStr src
                    else first_image imgs
      | _ \<Rightarrow> first_image imgs)"

definition extract_generic_recipe :: "page \<Rightarrow> string \<Rightarrow> recipe option" where
  "extract_generic_recipe html url =
     (case orelse (find_tag ''article'' (soup html))
            (orelse (find_class_re ''div'' container_class (soup html))
               (orelse (find_tag ''main'' (soup html)) (find_tag ''body'' (soup html)))) of
        None \<Rightarrow> None
      | Some content \<Rightarrow>
          let ingredients1 =
                filter (\<lambda>text. text \<noteq> [] \<and> length text > 3 \<and> re_search ingredient_pattern text)
                  (map get_text (find_all ''li'' content));
              instructions1 =
                filter (\<lambda>text. length text > 60 \<and> re_search (verbs generic_verbs) text)
                  (map get_text (find_all ''p'' content))
          in if ingredients1 \<noteq> [] \<or> instructions1 \<noteq> [] then
               Some \<lparr> title = PStr (tag_text_or (find_tag ''h1'' (soup html)) ''Recipe''),
                      image = first_image (find_all ''img'' content),
                      prep_time = None, cook_time = None, total_time = None,
                      servings = PNone,
                      ingredients = clean_ingredients ingredients1,
                      instructions = map PStr instructions1,
                      source_url = url,
                      category = ''Uncategorized'' \<rparr>
             else None)"

section \<open>The extraction orchestrator\<close>

text \<open>
  The collaborators of \<open>fetch_recipe\<close>. A call either raises or returns. The known-site
  scraper is an object whose accessors are called one by one; \<open>scrape_html\<close> gives it,
  or raises \<open>WebsiteNotImplementedError\<close>, or raises something else. \<open>requests.get\<close>
  raises \<open>Timeout\<close>, another \<open>RequestException\<close> or some other exception, or gives a
  response, whose status \<open>raise_for_status\<close> then checks (\<open>HTTPError\<close> is a
  \<open>RequestException\<close>); the body of the response is given parsed.
\<close>

datatype 'a call = Raises | Returns 'a

record scraper =
  sc_title :: "string option call"
  sc_image :: "string option call"
  sc_prep_time :: "int option call"
  sc_cook_time :: "int option call"
  sc_total_time :: "int option call"
  sc_yields :: "string option call"
  sc_ingredients :: "string list call"
  sc_instructions_list :: "string list call"

datatype scrape_result = WebsiteNotImplementedError | ScrapeFailure | Scraper scraper

datatype fetch_result =
    Timeout
  | RequestException
  | OtherException
  | Response bool page

record world =
  validators_url :: "string \<Rightarrow> bool"
  requests_get :: "string \<Rightarrow> fetch_result"
  scrape_html :: "page \<Rightarrow> string \<Rightarrow> scrape_result"

text \<open>\<open>safe_get\<close>: the result when the call returns something truthy, else \<open>None\<close>.\<close>

definition safe_get_str :: "string option call \<Rightarrow> string option" where
  "safe_get_str m =
     (case m of Returns (Some s) \<Rightarrow> if s \<noteq> [] then Some s else None | _ \<Rightarrow> None)"

definition safe_get_int :: "int option call \<Rightarrow> int option" where
  "safe_get_int m =
     (case m of Returns (Some i) \<Rightarrow> if i \<noteq> 0 then Some i else None | _ \<Rightarrow> None)"

definition safe_get_list :: "string list call \<Rightarrow> string list option" where
  "safe_get_list m =
     (case m of Returns xs \<Rightarrow> if xs \<noteq> [] then Some xs else None | Raises \<Rightarrow> None)"

definition str_or_none :: "string option \<Rightarrow> pyval" where
  "str_or_none s = (case s of None \<Rightarrow> PNone | Some t \<Rightarrow> PStr t)"

definition known_site_recipe :: "scraper \<Rightarrow> string \<Rightarrow> recipe" where
  "known_site_recipe sc url =
     (let raw_ingredients = (case safe_get_list (sc_ingredients sc) of
                               Some xs \<Rightarrow> xs | None \<Rightarrow> []);
          cleaned_ingredients = clean_ingredients raw_ingredients
      in \<lparr> title = PStr (case safe_get_str (sc_title sc) of Some t \<Rightarrow> t | None \<Rightarrow> ''Recipe''),
           image = str_or_none (safe_get_str (sc_image sc)),
           prep_time = safe_get_int (sc_prep_time sc),
           cook_time = safe_get_int (sc_cook_time sc),
           total_time = safe_get_int (sc_total_time sc),
           servings = str_or_none (safe_get_str (sc_yields sc)),
           ingredients = cleaned_ingredients,
           instructions = map PStr (case safe_get_list (sc_instructions_list sc) of
                                      Some xs \<Rightarrow> xs | None \<Rightarrow> []),
           source_url = url,
           category = ''Uncategorized'' \<rparr>)"

definition apostrophe :: string where
  "apostrophe = [CHR 0x27]"

definition invalid_url_message :: string where
  "invalid_url_message =
     ''That doesn'' @ apostrophe @
     ''t look like a valid web address. Please paste the full URL including https://''"

definition timeout_message :: string where
  "timeout_message = ''The website took too long to respond. Please try again.''"

definition unreachable_message :: string where
  "unreachable_message =
     ''Couldn'' @ apostrophe @
     ''t reach that website. Please check the link and try again.''"

definition unsupported_message :: string where
  "unsupported_message =
     ''This website isn'' @ apostrophe @ ''t fully supported yet, and we couldn'' @
     apostrophe @ ''t find the recipe data. Try a different recipe site.''"

definition no_recipe_message :: string where
  "no_recipe_message =
     ''Couldn'' @ apostrophe @ ''t find a recipe on that page. Make sure you'' @
     apostrophe @
     ''re pasting a link to a specific recipe, not just the homepage.''"

text \<open>The fallback chain, entered on \<open>WebsiteNotImplementedError\<close>. It runs inside the
  outer \<open>try\<close>, so an exception that leaves an extractor ends in the last handler,
  \<open>except Exception\<close>.\<close>

definition fallback_chain :: "page \<Rightarrow> string \<Rightarrow> recipe option \<times> string option" where
  "fallback_chain html url =
     (case extract_schema_recipe html url of
        Inl e \<Rightarrow> (None, Some no_recipe_message)
      | Inr (Some r) \<Rightarrow> (Some r, None)
      | Inr None \<Rightarrow>
          (case extract_weekendbakery_recipe html url of
             Some r \<Rightarrow> (Some r, None)
           | None \<Rightarrow>
               (case extract_generic_recipe html url of
                  Some r \<Rightarrow> (Some r, None)
                | None \<Rightarrow> (None, Some unsupported_message))))"

text \<open>\<open>fetch_recipe\<close> gives the pair that the source returns and, beside it, the number
  of HTTP requests that the call has made.\<close>

definition fetch_recipe ::
  "world \<Rightarrow> string \<Rightarrow> (recipe option \<times> string option) \<times> nat" where
  "fetch_recipe w url =
     (if \<not> validators_url w url then ((None, Some invalid_url_message), 0)
      else
        (case requests_get w url of
           Timeout \<Rightarrow> ((None, Some timeout_message), 1)
         | RequestException \<Rightarrow> ((None, Some unreachable_message), 1)
         | OtherException \<Rightarrow> ((None, Some no_recipe_message), 1)
         | Response ok html \<Rightarrow>
             if \<not> ok then ((None, Some unreachable_message), 1)
             else
               (case scrape_html w html url of
                  Scraper sc \<Rightarrow> ((Some (known_site_recipe sc url), None), 1)
                | ScrapeFailure \<Rightarrow> ((None, Some no_recipe_message), 1)
                | WebsiteNotImplementedError \<Rightarrow> (fallback_chain html url, 1))))"

section \<open>Pages and collaborators used as examples\<close>

definition document :: "node list \<Rightarrow> node" where
  "document children = Elem ''[document]'' [] children"

text \<open>The metadata block of the specification's example.\<close>

definition flour_jsonld :: pyval where
  "flour_jsonld =
     PDict [(''@type'', PStr ''Recipe''),
            (''recipeIngredient'', PList [PStr ''2 cups flour'']),
            (''recipeInstructions'', PList [PDict [(''text'', PStr ''Mix'')]]),
            (''prepTime'', PStr ''PT15M'')]"



text \<open>A page whose only metadata block is the JSON string \<open>"hello"\<close>, followed by an
  ordered list with one step.\<close>

definition string_block_page :: page where
  "string_block_page =
     \<lparr> scripts = [Inr (PStr ''hello'')],
       soup = document
                [Elem ''ol'' []
                   [Elem ''li'' [] [Text ''Mix the flour and the water well.'']]] \<rparr>"

text \<open>A page with the single paragraph \<open>350 g flour 20 g sugar\<close>.\<close>

definition grams_page :: page where
  "grams_page =
     \<lparr> scripts = [], soup = document [Elem ''p'' [] [Text ''350 g flour 20 g sugar'']] \<rparr>"

definition empty_page :: page where
  "empty_page = \<lparr> scripts = [], soup = document [] \<rparr>"


text \<open>A world in which every URL is valid and fetched with the given page as its body,
  and the known-site scraper answers as given.\<close>

definition serving :: "page \<Rightarrow> scrape_result \<Rightarrow> world" where
  "serving html answer =
     \<lparr> validators_url = (\<lambda>url. True),
       requests_get = (\<lambda>url. Response True html),
       scrape_html = (\<lambda>h url. answer) \<rparr>"

text \<open>A world that rejects every URL; a request in it would time out.\<close>

definition rejecting :: world where
  "rejecting =
     \<lparr> validators_url = (\<lambda>url. False),
       requests_get = (\<lambda>url. Timeout),
       scrape_html = (\<lambda>h url. ScrapeFailure) \<rparr>"







text \<open>The cooking fractions as the specification lists them, each with the string that
  stands for it, and the decimal literals that are the keys of the table in the source.\<close>

definition cooking_fractions :: "(rat \<times> string) list" where
  "cooking_fractions =
     [(1 / 8, ''1/8''), (1 / 4, ''1/4''), (1 / 3, ''1/3''), (3 / 8, ''3/8''),
      (1 / 2, ''1/2''), (5 / 8, ''5/8''), (2 / 3, ''2/3''), (3 / 4, ''3/4''),
      (7 / 8, ''7/8'')]"

definition table_decimals :: "(rat \<times> string) list" where
  "table_decimals =
     [(125 / 1000, ''1/8''), (25 / 100, ''1/4''), (333 / 1000, ''1/3''),
      (375 / 1000, ''3/8''), (5 / 10, ''1/2''), (625 / 1000, ''5/8''),
      (666 / 1000, ''2/3''), (667 / 1000, ''2/3''), (75 / 100, ''3/4''),
      (875 / 1000, ''7/8'')]"

section \<open>Evaluation\<close>

lemmas char_defs =
  is_digit_def is_space_def is_word_def lower_char_def strip_def digit_char_def


lemmas float_defs =
  pow2_def pow10_def binary_exponent_def round_half_even_def nearest_double_def
  to_float_def fsub_def trunc_def show_int_def digitpart_def digit_val_def
  nat_of_digits_def float_number_def float_exponent_def float_literal_def py_float_def
  limit_denominator_def common_fractions_def tolerance_def show_fraction_def
  decimal_to_fraction_def


lemmas literal_defs =
  float_literal_def float_number_def float_exponent_def digitpart_def nat_of_digits_def
  digit_val_def pow10_def










section \<open>The structured-data extractor on the specification's example\<close>

text \<open>
  Claim C7. A page whose JSON-LD block has \<open>@type\<close> \<open>Recipe\<close>, \<open>recipeIngredient\<close>
  \<open>["2 cups flour"]\<close>, \<open>recipeInstructions\<close> \<open>[{"text": "Mix"}]\<close> and \<open>prepTime\<close>
  \<open>"PT15M"\<close> gives, whatever the rest of the page and the URL, a record with exactly the
  one ingredient, exactly the one instruction \<open>Mix\<close>, and a preparation time of 15
  minutes.
\<close>

theorem schema_block_example:
  "extract_schema_recipe \<lparr> scripts = [Inr flour_jsonld], soup = doc \<rparr> url =
     Inr (Some \<lparr> title = PStr ''Recipe'', image = PNone, prep_time = Some 15,
                 cook_time = None, total_time = None, servings = PNone,
                 ingredients = [''2 cups flour''], instructions = [PStr ''Mix''],
                 source_url = url, category = ''Uncategorized'' \<rparr>)"
  by code_simp

section \<open>Step numbers of two digits\<close>

text \<open>
  Claim C8. The line \<open>9. Stir 10. Serve\<close> matches the embedded-numbering pattern. Split
  before each marker and with the numbers stripped it would give the steps \<open>Stir\<close> and
  \<open>Serve\<close>. The look-ahead of the source also matches in the middle of \<open>10\<close>, before
  \<open>0. \<close>, so the line is cut there as well and the digit \<open>1\<close> comes out as a step of
  its own.
\<close>

theorem two_digit_step_numbers:
  "split_embedded_steps [''9. Stir 10. Serve''] = [''Stir'', ''1'', ''Serve'']"
  by code_simp

text \<open>The example of the specification, with numbers of one digit, comes out as
  stated.\<close>

lemma one_digit_step_numbers:
  "split_embedded_steps [''1. Mix flour 2. Add water 3. Bake''] =
     [''Mix flour'', ''Add water'', ''Bake'']"
  by code_simp

section \<open>A metadata block that is not an object\<close>

text \<open>
  Claim C2. On a site that the known-site scraper does not implement, the page
  \<open>string_block_page\<close> has one metadata block, the JSON string \<open>"hello"\<close>, and an ordered
  list with one step. The block raises \<open>AttributeError\<close>, which is not among the
  exceptions that the structured-data extractor catches: \<open>fetch_recipe\<close> ends with the
  generic failure message, although the blog-layout extractor, next in the chain, finds a
  recipe on this very page.
\<close>

theorem string_block_aborts_chain:
  "fetch_recipe (serving string_block_page WebsiteNotImplementedError) url =
     ((None, Some no_recipe_message), 1) \<and>
   extract_weekendbakery_recipe string_block_page url =
     Some \<lparr> title = PStr ''Recipe'', image = PNone, prep_time = None,
            cook_time = None, total_time = None, servings = PNone,
            ingredients = [],
            instructions = [PStr ''Mix the flour and the water well.''],
            source_url = url, category = ''Uncategorized'' \<rparr>"
  by code_simp

section \<open>A paragraph with two gram quantities\<close>

text \<open>
  Claim C4, as stated, fails: the blog-layout extractor does not give the two fragments
  \<open>350 g flour\<close> and \<open>20 g sugar\<close> for the paragraph \<open>350 g flour 20 g sugar\<close>.
\<close>

theorem grams_paragraph_not_split:
  "map_option ingredients
     (extract_weekendbakery_recipe grams_page ''https://example.com/recipe'') \<noteq>
   Some [''350 g flour'', ''20 g sugar'']"
  by code_simp

text \<open>
  Claim C4, amended. With no list-item ingredients, the paragraph \<open>350 g flour 20 g sugar\<close>
  is short and begins with a number and a unit, so the second method takes it whole: the
  extractor gives exactly one ingredient, the text of the paragraph. The third method,
  which splits at gram quantities, runs only when the second has found nothing.
\<close>

theorem grams_paragraph_one_ingredient:
  "list_ingredients (soup grams_page) = [] \<and>
   paragraph_ingredients (soup grams_page) = [''350 g flour 20 g sugar''] \<and>
   map_option ingredients (extract_weekendbakery_recipe grams_page url) =
     Some [''350 g flour 20 g sugar'']"
  by code_simp

text \<open>Closed instances of the example theorems above.\<close>

theorem schema_block_example_witness:
  "extract_schema_recipe \<lparr> scripts = [Inr flour_jsonld], soup = document [] \<rparr>
     ''https://example.com/recipe'' =
     Inr (Some \<lparr> title = PStr ''Recipe'', image = PNone, prep_time = Some 15,
                 cook_time = None, total_time = None, servings = PNone,
                 ingredients = [''2 cups flour''], instructions = [PStr ''Mix''],
                 source_url = ''https://example.com/recipe'',
                 category = ''Uncategorized'' \<rparr>)"
  by (rule schema_block_example)

theorem string_block_aborts_chain_witness:
  "fetch_recipe (serving string_block_page WebsiteNotImplementedError)
     ''https://example.com/recipe'' = ((None, Some no_recipe_message), 1) \<and>
   extract_weekendbakery_recipe string_block_page ''https://example.com/recipe'' =
     Some \<lparr> title = PStr ''Recipe'', image = PNone, prep_time = None,
            cook_time = None, total_time = None, servings = PNone,
            ingredients = [],
            instructions = [PStr ''Mix the flour and the water well.''],
            source_url = ''https://example.com/recipe'', category = ''Uncategorized'' \<rparr>"
  by (rule string_block_aborts_chain)

theorem grams_paragraph_one_ingredient_witness:
  "list_ingredients (soup grams_page) = [] \<and>
   paragraph_ingredients (soup grams_page) = [''350 g flour 20 g sugar''] \<and>
   map_option ingredients
     (extract_weekendbakery_recipe grams_page ''https://example.com/recipe'') =
     Some [''350 g flour 20 g sugar'']"
  by (rule grams_paragraph_one_ingredient)

section \<open>The result pair of \<open>fetch_recipe\<close>\<close>

lemma messages_nonempty:
  "invalid_url_message \<noteq> []" "timeout_message \<noteq> []" "unreachable_message \<noteq> []"
  "unsupported_message \<noteq> []" "no_recipe_message \<noteq> []"
  by (simp_all add: invalid_url_message_def timeout_message_def unreachable_message_def
        unsupported_message_def no_recipe_message_def)

text \<open>
  Claim C5. For every world and every URL, \<open>fetch_recipe\<close> returns a pair of which exactly
  one component is there: a record with no error, or no record with an error message
  that is not empty.
\<close>

theorem fetch_recipe_pair:
  "(\<exists>r. fst (fetch_recipe w url) = (Some r, None)) \<or>
   (\<exists>msg. fst (fetch_recipe w url) = (None, Some msg) \<and> msg \<noteq> [])"
  unfolding fetch_recipe_def fallback_chain_def
  by (simp add: messages_nonempty
           split: fetch_result.split scrape_result.split sum.split option.split)

theorem fetch_recipe_pair_witness:
  "(\<exists>r. fst (fetch_recipe rejecting ''not a url'') = (Some r, None)) \<or>
   (\<exists>msg. fst (fetch_recipe rejecting ''not a url'') = (None, Some msg) \<and> msg \<noteq> [])"
  using fetch_recipe_pair [of rejecting "''not a url''"] .

text \<open>
  Claim C9. When the URL fails validation, \<open>fetch_recipe\<close> returns no record and the
  validation message, has made no HTTP request, and does the same whatever the HTTP
  layer would have answered.
\<close>

theorem invalid_url_no_request:
  "\<not> validators_url w url \<Longrightarrow>
     fetch_recipe w url = ((None, Some invalid_url_message), 0) \<and>
     fetch_recipe (w\<lparr>requests_get := g\<rparr>) url = fetch_recipe w url"
  by (simp add: fetch_recipe_def)

theorem invalid_url_no_request_witness:
  "\<not> validators_url rejecting ''not a url'' \<and>
   fetch_recipe rejecting ''not a url'' = ((None, Some invalid_url_message), 0) \<and>
   fetch_recipe (rejecting\<lparr>requests_get := (\<lambda>url. Response True empty_page)\<rparr>) ''not a url'' =
     fetch_recipe rejecting ''not a url''"
proof -
  have h: "\<not> validators_url rejecting ''not a url''"
    by (simp add: rejecting_def)
  from invalid_url_no_request [OF h] h show ?thesis by simp
qed

section \<open>Records without ingredients and instructions\<close>












section \<open>What \<open>fetch_recipe\<close> normalises\<close>












section \<open>The cooking fractions\<close>

subsection \<open>Rounding to a double\<close>

text \<open>
  \<open>binary_exponent\<close> gives the exponent of its argument, so \<open>nearest_double\<close> is off by at
  most half a unit in the last place: \<open>2 ^ (m - 53)\<close> for an argument of magnitude at most
  \<open>2 ^ m\<close>. Integers below \<open>2 ^ 53\<close> are doubles.
\<close>

declare bit_length.simps [simp del]

lemma pow2_powi: "pow2 e = 2 powi e"
  by (simp add: pow2_def power_int_def power_inverse inverse_eq_divide power_divide)

lemma pow2_pos: "0 < pow2 e"
  by (simp add: pow2_powi)

lemma pow2_add: "pow2 (a + b) = pow2 a * pow2 b"
  by (simp add: pow2_powi power_int_add)

lemma pow2_mono: "a \<le> b \<Longrightarrow> pow2 a \<le> pow2 b"
  by (simp add: pow2_powi power_int_increasing)

lemma pow2_less_exp: "pow2 a < pow2 b \<Longrightarrow> a < b"
proof (rule ccontr)
  assume less: "pow2 a < pow2 b" and "\<not> a < b"
  then have "b \<le> a" by simp
  then have "pow2 b \<le> pow2 a" by (rule pow2_mono)
  with less show False by simp
qed

lemma pow2_le_exp: "pow2 a \<le> pow2 b \<Longrightarrow> a \<le> b"
proof (rule ccontr)
  assume le: "pow2 a \<le> pow2 b" and "\<not> a \<le> b"
  then have "b < a" by simp
  then have "pow2 b < pow2 a" by (simp add: pow2_powi power_int_strict_increasing)
  with le show False by simp
qed

lemma bit_length_bounds: "0 < n \<Longrightarrow> 2 ^ (bit_length n - 1) \<le> n \<and> n < 2 ^ bit_length n"
proof (induction n rule: bit_length.induct)
  case (1 n)
  show ?case
  proof (cases "n div 2 = 0")
    case True
    with "1.prems" have n: "n = 1" by presburger
    show ?thesis
      by (subst (1 2) bit_length.simps, subst (1 2) bit_length.simps) (simp add: n)
  next
    case False
    then have pos: "0 < n div 2" by simp
    from "1.prems" have "n \<noteq> 0" by simp
    from "1.IH" [OF this pos]
    have lo: "2 ^ (bit_length (n div 2) - 1) \<le> n div 2"
      and hi: "n div 2 < 2 ^ bit_length (n div 2)" by simp_all
    have len: "bit_length n = Suc (bit_length (n div 2))"
      using \<open>n \<noteq> 0\<close> by (subst bit_length.simps) simp
    have bpos: "0 < bit_length (n div 2)"
      using pos by (subst bit_length.simps) simp
    then have "(2::nat) ^ (bit_length n - 1) = 2 * 2 ^ (bit_length (n div 2) - 1)"
      by (cases "bit_length (n div 2)") (simp_all add: len)
    with lo have "2 ^ (bit_length n - 1) \<le> 2 * (n div 2)" by simp
    also have "\<dots> \<le> n" by simp
    finally have a: "2 ^ (bit_length n - 1) \<le> n" .
    from hi have "n < 2 * 2 ^ bit_length (n div 2)" by presburger
    then have b: "n < 2 ^ bit_length n" by (simp add: len)
    from a b show ?thesis by simp
  qed
qed

lemma binary_exponent_le:
  assumes "0 < a"
  shows "pow2 (binary_exponent a) \<le> a"
proof (cases "1 \<le> a")
  case True
  define n where "n = nat \<lfloor>a\<rfloor>"
  from True have fl: "1 \<le> \<lfloor>a\<rfloor>" by simp
  then have npos: "0 < n" by (simp add: n_def)
  from bit_length_bounds [OF npos] have "2 ^ (bit_length n - 1) \<le> n" by simp
  then have "rat_of_nat (2 ^ (bit_length n - 1)) \<le> rat_of_nat n" by (simp only: of_nat_le_iff)
  also have "rat_of_nat n = of_int \<lfloor>a\<rfloor>" using fl by (simp add: n_def)
  also have "\<dots> \<le> a" by simp
  finally have "2 ^ (bit_length n - 1) \<le> a" by simp
  moreover have "0 < bit_length n" using npos by (subst bit_length.simps) simp
  then have "pow2 (int (bit_length n) - 1) = 2 ^ (bit_length n - 1)"
    by (cases "bit_length n") (simp_all add: pow2_def)
  ultimately show ?thesis using True by (simp add: binary_exponent_def n_def)
next
  case False
  define k where "k = \<lceil>1 / a\<rceil>"
  define m where "m = nat (k - 1)"
  from False assms have "1 < 1 / a" by (simp add: field_simps)
  then have c: "2 \<le> k" unfolding k_def by linarith
  have ka: "1 / a \<le> of_int k" unfolding k_def by simp
  from bit_length_bounds [of m] c have "m < 2 ^ bit_length m" by (simp add: m_def)
  then have "m + 1 \<le> 2 ^ bit_length m" by simp
  then have "int (m + 1) \<le> int (2 ^ bit_length m)" by (simp only: of_nat_le_iff)
  moreover have "int (m + 1) = k" using c by (simp add: m_def)
  ultimately have "k \<le> 2 ^ bit_length m" by simp
  then have "rat_of_int k \<le> rat_of_int (2 ^ bit_length m)" by (simp only: of_int_le_iff)
  then have kr: "rat_of_int k \<le> 2 ^ bit_length m" by simp
  from ka kr have "1 / a \<le> 2 ^ bit_length m" by (rule order_trans)
  with assms have "1 / 2 ^ bit_length m \<le> a" by (simp add: field_simps)
  moreover have "pow2 (- int (bit_length m)) = 1 / 2 ^ bit_length m"
    by (simp add: pow2_def)
  ultimately show ?thesis using False by (simp add: binary_exponent_def m_def k_def)
qed

lemma round_half_even_error: "\<bar>of_int (round_half_even m) - m\<bar> \<le> 1 / 2"
proof -
  have "of_int \<lfloor>m\<rfloor> \<le> m" "m < of_int \<lfloor>m\<rfloor> + 1" by linarith+
  then show ?thesis by (auto simp: round_half_even_def Let_def)
qed

lemma round_half_even_int: "round_half_even (of_int k) = k"
  by (simp add: round_half_even_def)

lemma nearest_double_error:
  assumes "\<bar>x\<bar> \<le> pow2 m" and "- 1022 \<le> m"
  shows "\<bar>nearest_double x - x\<bar> \<le> pow2 (m - 53)"
proof (cases "x = 0")
  case True
  then show ?thesis using pow2_pos [of "m - 53"] by (simp add: nearest_double_def)
next
  case False
  define a where "a = \<bar>x\<bar>"
  define q where "q = max (binary_exponent a) (- 1022) - 52"
  define r where "r = rat_of_int (round_half_even (a / pow2 q))"
  from False have apos: "0 < a" by (simp add: a_def)
  from binary_exponent_le [OF apos] assms(1) have "pow2 (binary_exponent a) \<le> pow2 m"
    by (simp add: a_def)
  then have "binary_exponent a \<le> m" by (rule pow2_le_exp)
  with assms(2) have q: "q \<le> m - 52" by (simp add: q_def)
  have nd: "nearest_double x = sgn x * r * pow2 q"
    using False by (simp add: nearest_double_def Let_def a_def q_def r_def)
  have x: "x = sgn x * a" by (simp add: a_def sgn_mult_abs)
  have "nearest_double x - x = sgn x * (r * pow2 q - a)"
    by (subst (2) x) (simp add: nd algebra_simps)
  then have "\<bar>nearest_double x - x\<bar> = \<bar>r * pow2 q - a\<bar>"
    using False by (simp add: abs_mult abs_sgn_eq)
  also have "r * pow2 q - a = pow2 q * (r - a / pow2 q)"
    using pow2_pos [of q] by (simp add: field_simps)
  also have "\<bar>pow2 q * (r - a / pow2 q)\<bar> = pow2 q * \<bar>r - a / pow2 q\<bar>"
    using pow2_pos [of q] by (simp add: abs_mult)
  also have "\<dots> \<le> pow2 q * (1 / 2)"
    using round_half_even_error [of "a / pow2 q"] pow2_pos [of q]
    by (intro mult_left_mono) (simp_all add: r_def)
  also have "\<dots> = pow2 (q - 1)"
    using pow2_add [of "q - 1" 1] by (simp add: pow2_def)
  also have "\<dots> \<le> pow2 (m - 53)" using q by (intro pow2_mono) simp
  finally show ?thesis .
qed

lemma binary_exponent_less:
  assumes "0 < a"
  shows "a < pow2 (binary_exponent a + 1)"
proof (cases "1 \<le> a")
  case True
  define n where "n = nat \<lfloor>a\<rfloor>"
  from True have fl: "1 \<le> \<lfloor>a\<rfloor>" by simp
  then have npos: "0 < n" by (simp add: n_def)
  from bit_length_bounds [OF npos] have "n + 1 \<le> 2 ^ bit_length n" by simp
  then have "rat_of_nat (n + 1) \<le> rat_of_nat (2 ^ bit_length n)" by (simp only: of_nat_le_iff)
  then have "rat_of_nat n + 1 \<le> 2 ^ bit_length n" by simp
  moreover have "rat_of_nat n = of_int \<lfloor>a\<rfloor>" using fl by (simp add: n_def)
  moreover have "a < of_int \<lfloor>a\<rfloor> + 1" by linarith
  ultimately have "a < 2 ^ bit_length n" by linarith
  moreover have "pow2 (int (bit_length n) - 1 + 1) = 2 ^ bit_length n"
    by (simp add: pow2_def)
  ultimately show ?thesis using True by (simp add: binary_exponent_def n_def)
next
  case False
  define k where "k = \<lceil>1 / a\<rceil>"
  define m where "m = nat (k - 1)"
  from False assms have "1 < 1 / a" by (simp add: field_simps)
  then have c: "2 \<le> k" unfolding k_def by linarith
  then have mpos: "0 < m" by (simp add: m_def)
  have ka: "of_int k - 1 < 1 / a" unfolding k_def by linarith
  from bit_length_bounds [OF mpos] have "2 ^ (bit_length m - 1) \<le> m" by simp
  then have "rat_of_nat (2 ^ (bit_length m - 1)) \<le> rat_of_nat m" by (simp only: of_nat_le_iff)
  moreover have "rat_of_nat m = of_int k - 1" using c by (simp add: m_def)
  ultimately have "2 ^ (bit_length m - 1) < 1 / a" using ka by simp
  with assms have "a < 1 / 2 ^ (bit_length m - 1)" by (simp add: field_simps)
  moreover have "0 < bit_length m" using mpos by (subst bit_length.simps) simp
  then have "pow2 (- int (bit_length m) + 1) = 1 / 2 ^ (bit_length m - 1)"
    by (cases "bit_length m") (simp_all add: pow2_def)
  ultimately show ?thesis using False by (simp add: binary_exponent_def m_def k_def)
qed

lemma binary_exponent_unique:
  assumes "pow2 e \<le> a" and "a < pow2 (e + 1)"
  shows "binary_exponent a = e"
proof -
  from assms(1) pow2_pos [of e] have apos: "0 < a" by linarith
  from binary_exponent_le [OF apos] assms(2) have "pow2 (binary_exponent a) < pow2 (e + 1)"
    by linarith
  then have "binary_exponent a < e + 1" by (rule pow2_less_exp)
  moreover from binary_exponent_less [OF apos] assms(1)
  have "pow2 e < pow2 (binary_exponent a + 1)" by linarith
  then have "e < binary_exponent a + 1" by (rule pow2_less_exp)
  ultimately show ?thesis by simp
qed

lemma round_half_even_unique:
  assumes "of_int r - 1 / 2 < m" and "m < of_int r + 1 / 2"
  shows "round_half_even m = r"
proof (cases "of_int r \<le> m")
  case True
  with assms have "\<lfloor>m\<rfloor> = r" by (intro floor_unique) linarith+
  with assms show ?thesis by (simp add: round_half_even_def Let_def)
next
  case False
  with assms have fl: "\<lfloor>m\<rfloor> = r - 1" by (intro floor_unique) (simp, linarith+)
  from assms have "\<not> m - of_int (r - 1) < 1 / 2" "1 / 2 < m - of_int (r - 1)" by simp_all
  then show ?thesis by (simp add: round_half_even_def Let_def fl)
qed

text \<open>A certificate for one rounding: the exponent and the significand.\<close>

lemma nearest_double_certificate:
  assumes "pow2 e \<le> x" and "x < pow2 (e + 1)" and "- 1022 \<le> e"
    and "of_int r - 1 / 2 < x / pow2 (e - 52)" and "x / pow2 (e - 52) < of_int r + 1 / 2"
  shows "nearest_double x = of_int r * pow2 (e - 52)"
proof -
  from assms(1) pow2_pos [of e] have xpos: "0 < x" by linarith
  then have ax: "\<bar>x\<bar> = x" by simp
  have be: "binary_exponent x = e" using assms(1,2) by (rule binary_exponent_unique)
  from assms(3) have mx: "max e (- 1022) = e" by simp
  have "round_half_even (x / pow2 (e - 52)) = r" using assms(4,5) by (rule round_half_even_unique)
  with xpos show ?thesis by (simp add: nearest_double_def Let_def ax be mx)
qed

lemma pow2_nonpos: "q \<le> 0 \<Longrightarrow> pow2 q = 1 / 2 ^ nat (- q)"
  by (cases "q = 0") (simp_all add: pow2_def)

lemma nearest_double_int:
  assumes "\<bar>n\<bar> < 2 ^ 53"
  shows "nearest_double (of_int n) = of_int n"
proof (cases "n = 0")
  case True
  then show ?thesis by (simp add: nearest_double_def)
next
  case False
  define a where "a = \<bar>rat_of_int n\<bar>"
  define q where "q = max (binary_exponent a) (- 1022) - 52"
  have a_int: "a = of_int \<bar>n\<bar>" by (simp add: a_def)
  from False have apos: "0 < a" by (simp add: a_def)
  from assms have "rat_of_int \<bar>n\<bar> < rat_of_int (2 ^ 53)" by (simp only: of_int_less_iff)
  then have "a < pow2 53" by (simp add: a_int pow2_def)
  with binary_exponent_le [OF apos] have "pow2 (binary_exponent a) < pow2 53" by simp
  then have "binary_exponent a < 53" by (rule pow2_less_exp)
  then have q: "q \<le> 0" by (simp add: q_def)
  have scaled: "a / pow2 q = of_int (\<bar>n\<bar> * 2 ^ nat (- q))"
    by (simp add: pow2_nonpos [OF q] a_int)
  have "round_half_even (a / pow2 q) = \<bar>n\<bar> * 2 ^ nat (- q)"
    unfolding scaled by (rule round_half_even_int)
  then have "rat_of_int (round_half_even (a / pow2 q)) * pow2 q = a"
    by (simp add: pow2_nonpos [OF q] a_int)
  then have "nearest_double (of_int n) = sgn (rat_of_int n) * a"
    using False by (simp add: nearest_double_def Let_def a_def [symmetric] q_def [symmetric]
        mult.assoc)
  also have "\<dots> = of_int n" by (simp add: a_def sgn_mult_abs)
  finally show ?thesis .
qed

subsection \<open>The table test\<close>

text \<open>
  The test \<open>abs(frac_part - decimal) < 0.02\<close> is taken on doubles. It succeeds when the
  exact distance is at most \<open>0.0197\<close> and fails when it is at least \<open>0.0203\<close>, for a
  fractional part known up to \<open>2 / 10 ^ 7\<close>.
\<close>

lemma small_powers:
  "pow2 (- 53) \<le> 1 / 1000000000000000" "pow2 (- 52) \<le> 1 / 1000000000000000" "pow2 (- 23) \<le> 12 / 100000000"
  "pow2 0 = 1" "pow2 1 = 2" "pow2 30 = 2 ^ 30"
  by (simp_all add: pow2_def)

lemma tolerance_bounds: "2 / 100 - 1 / 1000000000000000 \<le> tolerance" "tolerance \<le> 2 / 100 + 1 / 1000000000000000"
proof -
  have "\<bar>nearest_double (2 / 100) - 2 / 100\<bar> \<le> pow2 (0 - 53)"
    by (rule nearest_double_error) (simp_all add: small_powers)
  with small_powers(1) show "2 / 100 - 1 / 1000000000000000 \<le> tolerance"
    "tolerance \<le> 2 / 100 + 1 / 1000000000000000"
    unfolding tolerance_def by simp_all
qed

lemma table_difference:
  assumes "0 \<le> fp" "fp \<le> 1" "0 \<le> dec" "dec \<le> 1"
  shows "\<bar>fsub fp (nearest_double dec) - (fp - dec)\<bar> \<le> 2 / 1000000000000000"
proof -
  have k: "\<bar>nearest_double dec - dec\<bar> \<le> pow2 (0 - 53)"
    using assms by (intro nearest_double_error) (simp_all add: small_powers)
  with small_powers(1) have k': "\<bar>nearest_double dec - dec\<bar> \<le> 1 / 1000000000000000" by simp
  with assms have "\<bar>fp - nearest_double dec\<bar> \<le> pow2 1"
    unfolding small_powers by linarith
  then have "\<bar>nearest_double (fp - nearest_double dec) - (fp - nearest_double dec)\<bar>
      \<le> pow2 (1 - 53)"
    by (rule nearest_double_error) simp
  with small_powers(2)
  have "\<bar>nearest_double (fp - nearest_double dec) - (fp - nearest_double dec)\<bar> \<le> 1 / 1000000000000000"
    by simp
  with k' show ?thesis unfolding fsub_def by linarith
qed

lemma table_test_near:
  assumes "0 \<le> fp" "fp \<le> 1" "0 \<le> dec" "dec \<le> 1"
    and "\<bar>fp - v0\<bar> \<le> 2 / 10000000" and "\<bar>v0 - dec\<bar> \<le> 197 / 10000"
  shows "\<bar>fsub fp (nearest_double dec)\<bar> < tolerance"
  using table_difference [OF assms(1-4)] assms(5,6) tolerance_bounds(1) by linarith

lemma table_test_far:
  assumes "0 \<le> fp" "fp \<le> 1" "0 \<le> dec" "dec \<le> 1"
    and "\<bar>fp - v0\<bar> \<le> 2 / 10000000" and "203 / 10000 \<le> \<bar>v0 - dec\<bar>"
  shows "\<not> \<bar>fsub fp (nearest_double dec)\<bar> < tolerance"
  using table_difference [OF assms(1-4)] assms(5,6) tolerance_bounds(2) by linarith

lemma find_tolerant:
  assumes fp: "0 \<le> fp" "fp \<le> 1" "\<bar>fp - v0\<bar> \<le> 2 / 10000000"
    and "\<forall>(dec, str) \<in> set L. 0 \<le> dec \<and> dec \<le> 1 \<and>
           ((\<bar>v0 - dec\<bar> \<le> 197 / 10000 \<and> str = s) \<or> 203 / 10000 \<le> \<bar>v0 - dec\<bar>)"
    and "\<exists>(dec, str) \<in> set L. \<bar>v0 - dec\<bar> \<le> 197 / 10000"
  shows "\<exists>k. find (\<lambda>(decimal, fraction). \<bar>fsub fp decimal\<bar> < tolerance)
              (map (\<lambda>(dec, str). (nearest_double dec, str)) L) = Some (k, s)"
  using assms(4,5)
proof (induction L)
  case Nil
  then show ?case by simp
next
  case (Cons e L)
  obtain dec str where e: "e = (dec, str)" by (cases e)
  from Cons.prems(1) e have range: "0 \<le> dec" "dec \<le> 1"
    and alt: "(\<bar>v0 - dec\<bar> \<le> 197 / 10000 \<and> str = s) \<or> 203 / 10000 \<le> \<bar>v0 - dec\<bar>"
    by simp_all
  from alt show ?case
  proof
    assume near: "\<bar>v0 - dec\<bar> \<le> 197 / 10000 \<and> str = s"
    with table_test_near [OF fp(1,2) range fp(3)] show ?thesis by (simp add: e)
  next
    assume far: "203 / 10000 \<le> \<bar>v0 - dec\<bar>"
    from table_test_far [OF fp(1,2) range fp(3) far]
    have miss: "\<not> \<bar>fsub fp (nearest_double dec)\<bar> < tolerance" .
    from far have "\<not> \<bar>v0 - dec\<bar> \<le> 197 / 10000" by simp
    with Cons.prems(2) e have "\<exists>(dec, str) \<in> set L. \<bar>v0 - dec\<bar> \<le> 197 / 10000" by auto
    moreover from Cons.prems(1) have
      "\<forall>(dec, str) \<in> set L. 0 \<le> dec \<and> dec \<le> 1 \<and>
           ((\<bar>v0 - dec\<bar> \<le> 197 / 10000 \<and> str = s) \<or> 203 / 10000 \<le> \<bar>v0 - dec\<bar>)"
      by simp
    ultimately have "\<exists>k. find (\<lambda>(decimal, fraction). \<bar>fsub fp decimal\<bar> < tolerance)
              (map (\<lambda>(dec, str). (nearest_double dec, str)) L) = Some (k, s)"
      by (intro Cons.IH)
    with miss show ?thesis by (simp add: e)
  qed
qed

lemma common_fractions_map:
  "common_fractions = map (\<lambda>(dec, str). (nearest_double dec, str)) table_decimals"
  by (simp add: common_fractions_def table_decimals_def)

lemma table_distances:
  assumes "(f, s) \<in> set cooking_fractions"
  shows "\<forall>(dec, str) \<in> set table_decimals. 0 \<le> dec \<and> dec \<le> 1 \<and>
           ((\<bar>f - dec\<bar> \<le> 7 / 10000 \<and> str = s) \<or> 393 / 10000 \<le> \<bar>f - dec\<bar>)"
    and "\<exists>(dec, str) \<in> set table_decimals. \<bar>f - dec\<bar> \<le> 7 / 10000"
proof -
  from assms have "(f, s) = (1 / 8, ''1/8'') \<or> (f, s) = (1 / 4, ''1/4'') \<or>
      (f, s) = (1 / 3, ''1/3'') \<or> (f, s) = (3 / 8, ''3/8'') \<or> (f, s) = (1 / 2, ''1/2'') \<or>
      (f, s) = (5 / 8, ''5/8'') \<or> (f, s) = (2 / 3, ''2/3'') \<or> (f, s) = (3 / 4, ''3/4'') \<or>
      (f, s) = (7 / 8, ''7/8'')"
    by (simp add: cooking_fractions_def)
  then show "\<forall>(dec, str) \<in> set table_decimals. 0 \<le> dec \<and> dec \<le> 1 \<and>
           ((\<bar>f - dec\<bar> \<le> 7 / 10000 \<and> str = s) \<or> 393 / 10000 \<le> \<bar>f - dec\<bar>)"
    by (elim disjE) (simp_all add: table_decimals_def)
  from \<open>_ \<or> _\<close> show "\<exists>(dec, str) \<in> set table_decimals. \<bar>f - dec\<bar> \<le> 7 / 10000"
    by (elim disjE) (simp_all add: table_decimals_def)
qed

lemma table_covers:
  assumes fs: "(f, s) \<in> set cooking_fractions" and near: "\<bar>v0 - f\<bar> \<le> 19 / 1000"
  shows "\<forall>(dec, str) \<in> set table_decimals. 0 \<le> dec \<and> dec \<le> 1 \<and>
           ((\<bar>v0 - dec\<bar> \<le> 197 / 10000 \<and> str = s) \<or> 203 / 10000 \<le> \<bar>v0 - dec\<bar>)"
    and "\<exists>(dec, str) \<in> set table_decimals. \<bar>v0 - dec\<bar> \<le> 197 / 10000"
proof -
  show "\<forall>(dec, str) \<in> set table_decimals. 0 \<le> dec \<and> dec \<le> 1 \<and>
           ((\<bar>v0 - dec\<bar> \<le> 197 / 10000 \<and> str = s) \<or> 203 / 10000 \<le> \<bar>v0 - dec\<bar>)"
  proof (intro ballI, clarify)
    fix dec str
    assume "(dec, str) \<in> set table_decimals"
    with table_distances(1) [OF fs] have range: "0 \<le> dec" "dec \<le> 1"
      and alt: "(\<bar>f - dec\<bar> \<le> 7 / 10000 \<and> str = s) \<or> 393 / 10000 \<le> \<bar>f - dec\<bar>"
      by auto
    from alt have "(\<bar>v0 - dec\<bar> \<le> 197 / 10000 \<and> str = s) \<or> 203 / 10000 \<le> \<bar>v0 - dec\<bar>"
    proof
      assume "\<bar>f - dec\<bar> \<le> 7 / 10000 \<and> str = s"
      with near have "\<bar>v0 - dec\<bar> \<le> 197 / 10000" and "str = s" by linarith+
      then show ?thesis by simp
    next
      assume "393 / 10000 \<le> \<bar>f - dec\<bar>"
      with near have "203 / 10000 \<le> \<bar>v0 - dec\<bar>" by linarith
      then show ?thesis by simp
    qed
    with range show "0 \<le> dec \<and> dec \<le> 1 \<and>
           ((\<bar>v0 - dec\<bar> \<le> 197 / 10000 \<and> str = s) \<or> 203 / 10000 \<le> \<bar>v0 - dec\<bar>)"
      by simp
  qed
  from table_distances(2) [OF fs] obtain dec str where "(dec, str) \<in> set table_decimals"
    and "\<bar>f - dec\<bar> \<le> 7 / 10000" by auto
  with near have "(dec, str) \<in> set table_decimals \<and> \<bar>v0 - dec\<bar> \<le> 197 / 10000" by linarith
  then show "\<exists>(dec, str) \<in> set table_decimals. \<bar>v0 - dec\<bar> \<le> 197 / 10000" by auto
qed

subsection \<open>Values near a cooking fraction, and integers\<close>

lemma tabulated_value:
  assumes lit: "float_literal d = Some (Number v)"
    and v: "0 \<le> v" "v < 2 ^ 30"
    and fs: "(f, s) \<in> set cooking_fractions"
    and near: "\<bar>v - of_int \<lfloor>v\<rfloor> - f\<bar> \<le> 19 / 1000"
  shows "decimal_to_fraction d = (if 0 < \<lfloor>v\<rfloor> then show_int \<lfloor>v\<rfloor> @ '' '' @ s else s)"
proof -
  define w where "w = \<lfloor>v\<rfloor>"
  define v0 where "v0 = v - of_int w"
  define x where "x = nearest_double v"
  define fp where "fp = fsub x (of_int w)"
  from fs have f: "1 / 8 \<le> f" "f \<le> 7 / 8" by (auto simp add: cooking_fractions_def)
  from near have near': "\<bar>v0 - f\<bar> \<le> 19 / 1000" by (simp add: v0_def w_def)
  with f have v0: "106 / 1000 \<le> v0" "v0 \<le> 894 / 1000" by linarith+
  have big: "(2::rat) ^ 30 = 1073741824" by simp
  from v have "\<bar>v\<bar> \<le> pow2 30" by (simp add: small_powers)
  then have "\<bar>x - v\<bar> \<le> pow2 (30 - 53)" unfolding x_def by (rule nearest_double_error) simp
  with small_powers(3) have xv: "\<bar>x - v\<bar> \<le> 12 / 100000000" by simp
  with v0 have x: "of_int w + 1 / 10 \<le> x" "x \<le> of_int w + 9 / 10"
    unfolding v0_def by linarith+
  from v(1) have w0: "0 \<le> w" by (simp add: w_def)
  then have w0': "0 \<le> rat_of_int w" by simp
  have "rat_of_int w \<le> v" by (simp add: w_def)
  with v(2) big have wbig: "rat_of_int w < 1073741824" by linarith
  have fl: "\<lfloor>x\<rfloor> = w" using x by (intro floor_unique) linarith+
  from x w0' have "0 \<le> x" by linarith
  with fl have tr: "trunc x = w" by (simp add: trunc_def)
  from x have ne: "x \<noteq> of_int w" by linarith
  from x w0' wbig have "\<bar>x\<bar> < 1073741825" by linarith
  moreover have "(1073741825::rat) \<le> 2 ^ 1024" by simp
  ultimately have "\<not> 2 ^ 1024 \<le> \<bar>x\<bar>" by linarith
  then have pf: "py_float d = Some (Finite x)"
    by (simp add: py_float_def lit to_float_def x_def [symmetric] Let_def)
  from x have "\<bar>x - of_int w\<bar> \<le> pow2 0" by (simp add: small_powers)
  then have "\<bar>nearest_double (x - of_int w) - (x - of_int w)\<bar> \<le> pow2 (0 - 53)"
    by (rule nearest_double_error) simp
  with small_powers(1) have "\<bar>fp - (x - of_int w)\<bar> \<le> 1 / 1000000000000000"
    by (simp add: fp_def fsub_def)
  with x xv have fp: "0 \<le> fp" "fp \<le> 1" "\<bar>fp - v0\<bar> \<le> 2 / 10000000"
    unfolding v0_def by linarith+
  from find_tolerant [OF fp table_covers [OF fs near']]
  obtain k where "find (\<lambda>(decimal, fraction). \<bar>fsub fp decimal\<bar> < tolerance)
              (map (\<lambda>(dec, str). (nearest_double dec, str)) table_decimals) = Some (k, s)"
    by blast
  then have found: "find (\<lambda>(decimal, fraction). \<bar>fsub fp decimal\<bar> < tolerance)
      common_fractions = Some (k, s)"
    by (simp only: common_fractions_map)
  show ?thesis
    by (simp add: decimal_to_fraction_def pf tr ne fp_def [symmetric] found
          w_def [symmetric])
qed

lemma integral_value:
  assumes lit: "float_literal d = Some (Number (of_int n))" and n: "\<bar>n\<bar> < 2 ^ 53"
  shows "decimal_to_fraction d = show_int n"
proof -
  from n have "rat_of_int \<bar>n\<bar> < rat_of_int (2 ^ 53)" by (simp only: of_int_less_iff)
  then have "\<bar>rat_of_int n\<bar> < 9007199254740992" by simp
  moreover have "(9007199254740992::rat) \<le> 2 ^ 1024" by simp
  ultimately have "\<not> 2 ^ 1024 \<le> \<bar>rat_of_int n\<bar>" by linarith
  then have pf: "py_float d = Some (Finite (of_int n))"
    by (simp add: py_float_def lit to_float_def nearest_double_int [OF n] Let_def)
  have "trunc (of_int n) = n" by (simp add: trunc_def)
  then show ?thesis by (simp add: decimal_to_fraction_def pf)
qed

subsection \<open>At the edge of the tolerance\<close>

lemma quotient_of_coprime:
  assumes "0 < d" and "coprime n d"
  shows "quotient_of (of_int n / of_int d) = (n, d)"
proof -
  have "rat_of_int n / of_int d = Fract n d" by (simp only: Fract_of_int_quotient)
  with assms show ?thesis by (simp only: quotient_of_Fract normalize_stable)
qed

lemma literal_below_tolerance:
  "float_literal ''0.2699999999999999999'' =
     Some (Number (2699999999999999999 / 10000000000000000000))"
  by (simp add: char_defs literal_defs)

lemma double_below_tolerance:
  "nearest_double (2699999999999999999 / 10000000000000000000) =
     607985949695017 / 2251799813685248"
proof -
  have "nearest_double (2699999999999999999 / 10000000000000000000) =
      of_int 4863887597560136 * pow2 (- 2 - 52)"
    by (rule nearest_double_certificate) (simp_all add: pow2_def)
  then show ?thesis by (simp add: pow2_def)
qed

lemma double_fixed:
  "nearest_double (607985949695017 / 2251799813685248) = 607985949695017 / 2251799813685248"
proof -
  have "nearest_double (607985949695017 / 2251799813685248) =
      of_int 4863887597560136 * pow2 (- 2 - 52)"
    by (rule nearest_double_certificate) (simp_all add: pow2_def)
  then show ?thesis by (simp add: pow2_def)
qed

lemma double_quarter: "nearest_double (25 / 100) = 1 / 4"
proof -
  have "nearest_double (25 / 100) = of_int 4503599627370496 * pow2 (- 2 - 52)"
    by (rule nearest_double_certificate) (simp_all add: pow2_def)
  then show ?thesis by (simp add: pow2_def)
qed

lemma double_difference:
  "nearest_double (607985949695017 / 2251799813685248 - 1 / 4) =
     45035996273705 / 2251799813685248"
proof -
  have "nearest_double (607985949695017 / 2251799813685248 - 1 / 4) =
      of_int 5764607523034240 * pow2 (- 6 - 52)"
    by (rule nearest_double_certificate) (simp_all add: pow2_def)
  then show ?thesis by (simp add: pow2_def)
qed

lemma tolerance_value: "tolerance = 5764607523034235 / 288230376151711744"
proof -
  have "nearest_double (2 / 100) = of_int 5764607523034235 * pow2 (- 6 - 52)"
    by (rule nearest_double_certificate) (simp_all add: pow2_def)
  then show ?thesis by (simp add: tolerance_def pow2_def)
qed

lemma no_table_entry:
  "find (\<lambda>(decimal, fraction).
           \<bar>fsub (607985949695017 / 2251799813685248) decimal\<bar> < tolerance)
     common_fractions = None"
proof -
  let ?x = "607985949695017 / 2251799813685248 :: rat"
  have far: "\<not> \<bar>fsub ?x (nearest_double dec)\<bar> < tolerance"
    if "0 \<le> dec" "dec \<le> 1" "203 / 10000 \<le> \<bar>?x - dec\<bar>" for dec
    by (rule table_test_far [where ?v0.0 = ?x]) (use that in simp_all)
  have diff: "fsub ?x (nearest_double (25 / 100)) = 45035996273705 / 2251799813685248"
    unfolding fsub_def by (simp only: double_quarter double_difference)
  have quarter: "\<not> \<bar>fsub ?x (nearest_double (25 / 100))\<bar> < tolerance"
    unfolding diff tolerance_value by simp
  have t1: "\<not> \<bar>fsub ?x (nearest_double (125 / 1000))\<bar> < tolerance"
    by (rule far) simp_all
  have t2: "\<not> \<bar>fsub ?x (nearest_double (333 / 1000))\<bar> < tolerance"
    by (rule far) simp_all
  have t3: "\<not> \<bar>fsub ?x (nearest_double (375 / 1000))\<bar> < tolerance"
    by (rule far) simp_all
  have t4: "\<not> \<bar>fsub ?x (nearest_double (5 / 10))\<bar> < tolerance"
    by (rule far) simp_all
  have t5: "\<not> \<bar>fsub ?x (nearest_double (625 / 1000))\<bar> < tolerance"
    by (rule far) simp_all
  have t6: "\<not> \<bar>fsub ?x (nearest_double (666 / 1000))\<bar> < tolerance"
    by (rule far) simp_all
  have t7: "\<not> \<bar>fsub ?x (nearest_double (667 / 1000))\<bar> < tolerance"
    by (rule far) simp_all
  have t8: "\<not> \<bar>fsub ?x (nearest_double (75 / 100))\<bar> < tolerance"
    by (rule far) simp_all
  have t9: "\<not> \<bar>fsub ?x (nearest_double (875 / 1000))\<bar> < tolerance"
    by (rule far) simp_all
  show ?thesis
    unfolding common_fractions_def
    by (simp only: find.simps prod.case quarter t1 t2 t3 t4 t5 t6 t7 t8 t9 if_False)
qed

lemma quotient_below_tolerance:
  "quotient_of (607985949695017 / 2251799813685248) = (607985949695017, 2251799813685248)"
proof -
  have "coprime (607985949695017::int) 2" by simp
  then have "coprime (607985949695017::int) (2 ^ 51)"
    by (simp add: coprime_power_right_iff del: power_numeral)
  then have "coprime (607985949695017::int) 2251799813685248" by simp
  from quotient_of_coprime [OF _ this] show ?thesis by simp
qed

lemma loop_below_tolerance:
  "ld_loop 8 0 1 1 0 607985949695017 2251799813685248 = Some (1, 3, 1, 4)"
  by (simp add: ld_loop.simps)

lemma limit_below_tolerance:
  "limit_denominator 8 (607985949695017 / 2251799813685248) = Some (Fract 2 7)"
  by (simp add: limit_denominator_def quotient_below_tolerance loop_below_tolerance
        Fract_of_int_quotient)

lemma show_two_sevenths: "show_fraction (Fract 2 7) = ''2/7''"
  by (simp add: show_fraction_def quotient_of_Fract normalize_stable show_int_def
        digit_char_def)

lemma below_tolerance_not_tabulated:
  "decimal_to_fraction ''0.2699999999999999999'' = ''2/7''"
proof -
  let ?x = "607985949695017 / 2251799813685248 :: rat"
  have pf: "py_float ''0.2699999999999999999'' = Some (Finite ?x)"
    by (simp add: py_float_def literal_below_tolerance to_float_def double_below_tolerance)
  have fl: "\<lfloor>?x\<rfloor> = 0" by (rule floor_unique) simp_all
  have tr: "trunc ?x = 0" unfolding trunc_def fl by simp
  have fp: "fsub ?x (of_int 0) = ?x" unfolding fsub_def using double_fixed by simp
  show ?thesis
    unfolding decimal_to_fraction_def pf
    by (simp add: tr fp no_table_entry limit_below_tolerance show_two_sevenths
          del: of_int_0)
qed

lemma literal_large_half:
  "float_literal ''9007199254740993.5'' = Some (Number (18014398509481987 / 2))"
  by (simp add: char_defs literal_defs)

lemma double_large_half: "nearest_double (18014398509481987 / 2) = 9007199254740994"
proof -
  have "nearest_double (18014398509481987 / 2) = of_int 4503599627370497 * pow2 (53 - 52)"
    by (rule nearest_double_certificate) (simp_all add: pow2_def)
  then show ?thesis by (simp add: pow2_def)
qed

lemma large_half_loses_fraction:
  "decimal_to_fraction ''9007199254740993.5'' = ''9007199254740994''"
proof -
  have pf: "py_float ''9007199254740993.5'' = Some (Finite 9007199254740994)"
    by (simp add: py_float_def literal_large_half to_float_def double_large_half)
  have tr: "trunc 9007199254740994 = 9007199254740994" by (simp add: trunc_def)
  show ?thesis
    unfolding decimal_to_fraction_def pf
    by (simp add: tr show_int_def digit_char_def)
qed

lemma literal_large_odd:
  "float_literal ''9007199254740993.0'' = Some (Number 9007199254740993)"
  by (simp add: char_defs literal_defs)

lemma double_large_odd: "nearest_double 9007199254740993 = 9007199254740992"
proof -
  have be: "binary_exponent 9007199254740993 = 53"
    by (rule binary_exponent_unique) (simp_all add: pow2_def)
  have fl: "\<lfloor>(9007199254740993::rat) / 2\<rfloor> = 4503599627370496"
    by (rule floor_unique) simp_all
  have r: "round_half_even (9007199254740993 / 2) = 4503599627370496"
    by (simp add: round_half_even_def Let_def fl)
  show ?thesis by (simp add: nearest_double_def Let_def be pow2_def r)
qed

lemma large_odd_rounded:
  "decimal_to_fraction ''9007199254740993.0'' = ''9007199254740992''"
proof -
  have pf: "py_float ''9007199254740993.0'' = Some (Finite 9007199254740992)"
    by (simp add: py_float_def literal_large_odd to_float_def double_large_odd)
  have tr: "trunc 9007199254740992 = 9007199254740992" by (simp add: trunc_def)
  show ?thesis
    unfolding decimal_to_fraction_def pf
    by (simp add: tr show_int_def digit_char_def)
qed

text \<open>
  Claim C6, as stated, fails. The value of \<open>0.2699999999999999999\<close> lies within \<open>0.02\<close> of
  \<open>1/4\<close>, but its double is \<open>0.27\<close>, whose float difference from \<open>0.25\<close> is not below
  the double \<open>0.02\<close>: the result is \<open>2/7\<close>. The value \<open>9007199254740993.5\<close> has the
  fractional part \<open>1/2\<close>, but its double is an integer, and the integer
  \<open>9007199254740993\<close> is not a double: the results are \<open>9007199254740994\<close> and
  \<open>9007199254740992\<close>.
\<close>

theorem tolerance_edge_not_tabulated:
  "float_literal ''0.2699999999999999999'' =
     Some (Number (2699999999999999999 / 10000000000000000000)) \<and>
   (1 / 4, ''1/4'') \<in> set cooking_fractions \<and>
   \<bar>2699999999999999999 / 10000000000000000000 - 1 / 4\<bar> < (2 / 100 :: rat) \<and>
   decimal_to_fraction ''0.2699999999999999999'' = ''2/7'' \<and>
   float_literal ''9007199254740993.5'' = Some (Number (18014398509481987 / 2)) \<and>
   decimal_to_fraction ''9007199254740993.5'' = ''9007199254740994'' \<and>
   float_literal ''9007199254740993.0'' = Some (Number 9007199254740993) \<and>
   decimal_to_fraction ''9007199254740993.0'' = ''9007199254740992''"
  by (simp add: literal_below_tolerance below_tolerance_not_tabulated cooking_fractions_def
        literal_large_half large_half_loses_fraction literal_large_odd large_odd_rounded)

text \<open>
  Claim C6, amended. Let \<open>v\<close> be the value that the decimal string \<open>d\<close> denotes. If \<open>v\<close>
  is an integer of magnitude below \<open>2 ^ 53\<close>, \<open>decimal_to_fraction d\<close> is the numeral of that
  integer. If \<open>0 \<le> v < 2 ^ 30\<close> and the fractional part of \<open>v\<close> is within \<open>0.019\<close> of a
  cooking fraction, \<open>decimal_to_fraction d\<close> is the string of that fraction, after the
  whole part and a space when the whole part is not zero.
\<close>

theorem decimal_to_fraction_tabulated:
  assumes "float_literal d = Some (Number v)"
  shows "(v = of_int n \<and> \<bar>n\<bar> < 2 ^ 53 \<longrightarrow> decimal_to_fraction d = show_int n) \<and>
         (0 \<le> v \<and> v < 2 ^ 30 \<and> (f, s) \<in> set cooking_fractions \<and>
          \<bar>v - of_int \<lfloor>v\<rfloor> - f\<bar> \<le> 19 / 1000 \<longrightarrow>
            decimal_to_fraction d =
              (if 0 < \<lfloor>v\<rfloor> then show_int \<lfloor>v\<rfloor> @ '' '' @ s else s))"
  using assms integral_value [of d n] tabulated_value [of d v f s] by blast

theorem decimal_to_fraction_tabulated_witness:
  "decimal_to_fraction ''4.0'' = ''4'' \<and>
   decimal_to_fraction ''0.26'' = ''1/4'' \<and>
   decimal_to_fraction ''2.5'' = ''2 1/2''"
proof -
  have four: "float_literal ''4.0'' = Some (Number 4)"
    by (simp add: char_defs literal_defs)
  have a: "decimal_to_fraction ''4.0'' = ''4''"
    using decimal_to_fraction_tabulated [OF four, of 4]
    by (simp add: show_int_def digit_char_def)
  have quarter: "float_literal ''0.26'' = Some (Number (13 / 50))"
    by (simp add: char_defs literal_defs)
  have fl0: "\<lfloor>(13::rat) / 50\<rfloor> = 0" by (rule floor_unique) simp_all
  have b: "decimal_to_fraction ''0.26'' = ''1/4''"
    using decimal_to_fraction_tabulated [OF quarter, of _ "1 / 4" "''1/4''"]
    by (simp add: fl0 cooking_fractions_def)
  have half: "float_literal ''2.5'' = Some (Number (5 / 2))"
    by (simp add: char_defs literal_defs)
  have fl2: "\<lfloor>(5::rat) / 2\<rfloor> = 2" by (rule floor_unique) simp_all
  have c: "decimal_to_fraction ''2.5'' = ''2 1/2''"
    using decimal_to_fraction_tabulated [OF half, of _ "1 / 2" "''1/2''"]
    by (simp add: fl2 cooking_fractions_def show_int_def digit_char_def)
  from a b c show ?thesis by simp
qed

section \<open>Cleaning an ingredient twice\<close>










end
